theory Spec2Isabelle
  imports Complex_Main "HOL-Library.Word"
begin

section \<open>Strings\<close>

text \<open>
  A Python \<open>str\<close> is held as the bytes of its UTF-8 encoding, one \<open>char\<close> per byte.
  A \<open>str\<close> may hold a lone surrogate (\<open>U+D800\<close> to \<open>U+DFFF\<close>), which UTF-8 proper
  does not encode; it is held as the three bytes that the \<open>surrogatepass\<close> handler
  writes for it, \<open>0xED\<close>, a byte from \<open>0xA0\<close> to \<open>0xBF\<close>, and one more.
  \<open>len(s)\<close> counts code points: every byte of the encoding that is not a continuation
  byte (\<open>0x80\<close> to \<open>0xBF\<close>) starts one.
\<close>

definition is_continuation :: "char \<Rightarrow> bool" where
  "is_continuation c = (128 \<le> (of_char c :: nat) \<and> (of_char c :: nat) < 192)"

definition len_str :: "string \<Rightarrow> nat" where
  "len_str s = length (filter (\<lambda>c. \<not> is_continuation c) s)"

text \<open>The string holds a surrogate: \<open>0xED\<close> followed by a byte from \<open>0xA0\<close> to \<open>0xBF\<close>.\<close>

fun has_surrogate :: "string \<Rightarrow> bool" where
  "has_surrogate (a # b # cs) =
     (((of_char a :: nat) = 237 \<and> 160 \<le> (of_char b :: nat) \<and> (of_char b :: nat) \<le> 191)
      \<or> has_surrogate (b # cs))"
| "has_surrogate cs = False"

section \<open>The category taxonomy (config/categories.py)\<close>

text \<open>
  The three dictionaries are literals with distinct keys; each is an association list in
  the order of the source, so that \<open>list(d.keys())\<close> is \<open>map fst d\<close> and
  \<open>d.get(k, default)\<close> is a lookup with \<open>map_of\<close>.
\<close>

definition BUDGET_CATEGORIES :: "(string \<times> string list) list" where
  "BUDGET_CATEGORIES =
    [
     (''Children'',
      [''Childcare'',
       ''Medical & Consultations'',
       ''School Supplies & Toys'',
       ''School Tuition'',
       ''Children'' @ [CHR 0x27] @ ''s Food'',
       ''Children'' @ [CHR 0x27] @ ''s Entertainment'']),
     (''Entertainment'',
      [''Concerts'',
       ''Theatre & Opera'',
       ''Cinema'',
       ''Music (CDs, Downloads, etc.)'',
       ''Sports Events'',
       ''Video/DVD (Purchase)'',
       ''Video/DVD (Rental)'',
       ''Books'']),
     (''Food'',
      [''Dining Out & Catering'',
       ''Groceries'',
       ''Fruits & Vegetables'',
       ''Meat & Deli'',
       ''Fish & Seafood'']),
     (''Gifts and Charity'',
      [''Religious Donations'',
       ''Gifts'',
       ''Gift 1'',
       ''Gift 2'']),
     (''Housing'',
      [''Cable/Satellite'',
       ''Electricity'',
       ''Gas'',
       ''House Cleaning'',
       ''Home Maintenance & Repairs'',
       ''Utilities'',
       ''Natural Gas/Oil'',
       ''Internet Service'',
       ''Mobile Phone'',
       ''Landline Phone'',
       ''Other Housing Expenses'',
       ''Waste Removal & Recycling'',
       ''Water & Bottled Water'']),
     (''Insurance'',
      [''Health Insurance'',
       ''Home Insurance'',
       ''Life Insurance'']),
     (''Loans'',
      [''Personal Loan'',
       ''Overdraft'',
       ''Credit Card'',
       ''Personal Debt'',
       ''Student Loan'']),
     (''Personal Care'',
      [''Clothing'',
       ''Hygiene Products'',
       ''Hair Salon & Manicure'',
       ''Fitness & Beauty Salon'',
       ''Medical & Consultations'']),
     (''Pets'',
      [''Pet Food'',
       ''Grooming'',
       ''Veterinary & Medicine'',
       ''Pet Toys'']),
     (''Savings or Investments'',
      [''Investments'',
       ''Retirement Account'']),
     (''Taxes'',
      [''Federal Taxes'',
       ''Local Taxes'',
       ''State Taxes'']),
     (''Transportation'',
      [''Public Transport & Taxi'',
       ''Fuel/Gasoline'',
       ''Car Insurance'',
       ''License & Registration'',
       ''Car Maintenance'',
       ''Parking'',
       ''Vehicle Taxes''])]"

definition CATEGORY_COLORS :: "(string \<times> string) list" where
  "CATEGORY_COLORS =
    [
     (''Children'', ''#FF6B6B''),
     (''Entertainment'', ''#4ECDC4''),
     (''Food'', ''#45B7D1''),
     (''Gifts and Charity'', ''#FFA07A''),
     (''Housing'', ''#98D8C8''),
     (''Insurance'', ''#6C5CE7''),
     (''Loans'', ''#FDCB6E''),
     (''Personal Care'', ''#FF7675''),
     (''Pets'', ''#74B9FF''),
     (''Savings or Investments'', ''#55EFC4''),
     (''Taxes'', ''#A29BFE''),
     (''Transportation'', ''#FD79A8'')]"

definition CATEGORY_ICONS :: "(string \<times> string) list" where
  "CATEGORY_ICONS =
    [
     (''Children'', [CHR 0xF0, CHR 0x9F, CHR 0x91, CHR 0xB6]),
     (''Entertainment'', [CHR 0xF0, CHR 0x9F, CHR 0x8E, CHR 0xAD]),
     (''Food'', [CHR 0xF0, CHR 0x9F, CHR 0x8D, CHR 0x95]),
     (''Gifts and Charity'', [CHR 0xF0, CHR 0x9F, CHR 0x8E, CHR 0x81]),
     (''Housing'', [CHR 0xF0, CHR 0x9F, CHR 0x8F, CHR 0xA0]),
     (''Insurance'', [CHR 0xF0, CHR 0x9F, CHR 0x9B, CHR 0xA1, CHR 0xEF, CHR 0xB8, CHR 0x8F]),
     (''Loans'', [CHR 0xF0, CHR 0x9F, CHR 0x92, CHR 0xB3]),
     (''Personal Care'', [CHR 0xF0, CHR 0x9F, CHR 0x92, CHR 0x84]),
     (''Pets'', [CHR 0xF0, CHR 0x9F, CHR 0x90, CHR 0xBE]),
     (''Savings or Investments'', [CHR 0xF0, CHR 0x9F, CHR 0x92, CHR 0xB0]),
     (''Taxes'', [CHR 0xF0, CHR 0x9F, CHR 0x93, CHR 0x8A]),
     (''Transportation'', [CHR 0xF0, CHR 0x9F, CHR 0x9A, CHR 0x97])]"

definition get_all_categories :: "string list" where
  "get_all_categories = map fst BUDGET_CATEGORIES"

definition get_subcategories :: "string \<Rightarrow> string list" where
  "get_subcategories category =
     (case map_of BUDGET_CATEGORIES category of None \<Rightarrow> [] | Some subs \<Rightarrow> subs)"

definition INCOME_CATEGORIES :: "string list" where
  "INCOME_CATEGORIES =
    [[CHR 0xF0, CHR 0x9F, CHR 0x92, CHR 0xBC] @ '' Salary'',
     [CHR 0xF0, CHR 0x9F, CHR 0x8E, CHR 0x81] @ '' Bonus'',
     [CHR 0xF0, CHR 0x9F, CHR 0x8F, CHR 0xA2] @ '' Freelance/Business'',
     [CHR 0xF0, CHR 0x9F, CHR 0x8F, CHR 0xA0] @ '' Rental Income'',
     [CHR 0xF0, CHR 0x9F, CHR 0x93, CHR 0x88] @ '' Investments'',
     [CHR 0xF0, CHR 0x9F, CHR 0x8E, CHR 0x89] @ '' Gifts & Inheritance'',
     [CHR 0xF0, CHR 0x9F, CHR 0x92, CHR 0xB0] @ '' Other Income'']"

definition get_income_categories :: "string list" where
  "get_income_categories = INCOME_CATEGORIES"


section \<open>SHA-256 (hashlib.sha256, FIPS 180-4)\<close>

text \<open>
  \<open>hashlib.sha256(data).hexdigest()\<close> is the standard function; it is written out
  here so that the hash of a concrete password can be computed. Words are 32 bits wide
  and addition wraps; the message is a list of bytes. The round constants and the
  initial hash value are written in decimal.
\<close>

type_synonym w32 = "32 word"

definition K256 :: "w32 list" where
  "K256 =
    [1116352408, 1899447441, 3049323471, 3921009573, 961987163, 1508970993,
     2453635748, 2870763221, 3624381080, 310598401, 607225278, 1426881987,
     1925078388, 2162078206, 2614888103, 3248222580, 3835390401, 4022224774,
     264347078, 604807628, 770255983, 1249150122, 1555081692, 1996064986,
     2554220882, 2821834349, 2952996808, 3210313671, 3336571891, 3584528711,
     113926993, 338241895, 666307205, 773529912, 1294757372, 1396182291,
     1695183700, 1986661051, 2177026350, 2456956037, 2730485921, 2820302411,
     3259730800, 3345764771, 3516065817, 3600352804, 4094571909, 275423344,
     430227734, 506948616, 659060556, 883997877, 958139571, 1322822218,
     1537002063, 1747873779, 1955562222, 2024104815, 2227730452, 2361852424,
     2428436474, 2756734187, 3204031479, 3329325298]"

definition H256 :: "w32 list" where
  "H256 =
    [1779033703, 3144134277, 1013904242, 2773480762, 1359893119, 2600822924,
     528734635, 1541459225]"

definition rotr :: "nat \<Rightarrow> w32 \<Rightarrow> w32" where
  "rotr n x = or (drop_bit n x) (push_bit (32 - n) x)"

definition Ch :: "w32 \<Rightarrow> w32 \<Rightarrow> w32 \<Rightarrow> w32" where
  "Ch x y z = xor (and x y) (and (not x) z)"

definition Maj :: "w32 \<Rightarrow> w32 \<Rightarrow> w32 \<Rightarrow> w32" where
  "Maj x y z = xor (xor (and x y) (and x z)) (and y z)"

definition Sigma0 :: "w32 \<Rightarrow> w32" where
  "Sigma0 x = xor (xor (rotr 2 x) (rotr 13 x)) (rotr 22 x)"

definition Sigma1 :: "w32 \<Rightarrow> w32" where
  "Sigma1 x = xor (xor (rotr 6 x) (rotr 11 x)) (rotr 25 x)"

definition sigma0 :: "w32 \<Rightarrow> w32" where
  "sigma0 x = xor (xor (rotr 7 x) (rotr 18 x)) (drop_bit 3 x)"

definition sigma1 :: "w32 \<Rightarrow> w32" where
  "sigma1 x = xor (xor (rotr 17 x) (rotr 19 x)) (drop_bit 10 x)"

text \<open>Padding: the byte \<open>0x80\<close>, zeros up to 56 bytes modulo 64, the bit length on 8 bytes.\<close>

definition be_bytes8 :: "64 word \<Rightarrow> 8 word list" where
  "be_bytes8 n = map (\<lambda>i. ucast (drop_bit (8 * i) n)) [7, 6, 5, 4, 3, 2, 1, 0]"

definition sha_pad :: "8 word list \<Rightarrow> 8 word list" where
  "sha_pad bs =
     bs @ [0x80] @ replicate ((119 - length bs mod 64) mod 64) 0
        @ be_bytes8 (8 * of_nat (length bs))"

fun be_words :: "8 word list \<Rightarrow> w32 list" where
  "be_words (a # b # c # d # bs) =
     (or (push_bit 24 (ucast a)) (or (push_bit 16 (ucast b)) (or (push_bit 8 (ucast c)) (ucast d))))
       # be_words bs"
| "be_words _ = []"

fun blocks :: "w32 list \<Rightarrow> w32 list list" where
  "blocks [] = []"
| "blocks ws = take 16 ws # blocks (drop 16 ws)"

text \<open>The message schedule: 48 more words after the 16 of the block.\<close>

fun schedule :: "nat \<Rightarrow> w32 list \<Rightarrow> w32 list" where
  "schedule 0 w = w"
| "schedule (Suc n) w =
     (let t = length w in
      schedule n (w @ [sigma1 (w ! (t - 2)) + w ! (t - 7) + sigma0 (w ! (t - 15)) + w ! (t - 16)]))"

fun sha_round :: "w32 \<times> w32 \<Rightarrow> w32 list \<Rightarrow> w32 list" where
  "sha_round (k, w) [a, b, c, d, e, f, g, h] =
     (let T1 = h + Sigma1 e + Ch e f g + k + w;
          T2 = Sigma0 a + Maj a b c
      in [T1 + T2, a, b, c, d + T1, e, f, g])"
| "sha_round _ s = s"

definition compress :: "w32 list \<Rightarrow> w32 list \<Rightarrow> w32 list" where
  "compress block hs = map2 (+) hs (fold sha_round (zip K256 (schedule 48 block)) hs)"

definition sha256 :: "string \<Rightarrow> w32 list" where
  "sha256 s = fold compress (blocks (be_words (sha_pad (map of_char s)))) H256"

definition hex_digit :: "w32 \<Rightarrow> char" where
  "hex_digit n = ''0123456789abcdef'' ! unat (and n 15)"

definition hex_word :: "w32 \<Rightarrow> string" where
  "hex_word w = map (\<lambda>i. hex_digit (drop_bit (4 * i) w)) [7, 6, 5, 4, 3, 2, 1, 0]"

definition sha256_hexdigest :: "string \<Rightarrow> string" where
  "sha256_hexdigest s = concat (map hex_word (sha256 s))"


section \<open>Python values and exceptions\<close>

text \<open>
  The values that travel through the code: what \<open>json.loads\<close> returns and the
  dictionaries the operations hand back. A \<open>dict\<close> with string keys is an association
  list read with \<open>map_of\<close>. Amounts (\<open>float\<close>, the \<open>REAL\<close> columns) are exact
  rationals.
\<close>

datatype pyval =
    PNone
  | PBool bool
  | PInt int
  | PFloat rat
  | PStr string
  | PList "pyval list"
  | PDict "(string \<times> pyval) list"

datatype error =
    IntegrityError string
  | OperationalError string
  | TypeError string
  | ValueError string
  | KeyError string
  | AttributeError string
  | JSONDecodeError string
  | UnicodeEncodeError string

text \<open>\<open>str(e)\<close>: the message of the exception.\<close>

fun str_of_error :: "error \<Rightarrow> string" where
  "str_of_error (IntegrityError m) = m"
| "str_of_error (OperationalError m) = m"
| "str_of_error (TypeError m) = m"
| "str_of_error (ValueError m) = m"
| "str_of_error (KeyError m) = m"
| "str_of_error (AttributeError m) = m"
| "str_of_error (JSONDecodeError m) = m"
| "str_of_error (UnicodeEncodeError m) = m"

definition bind_e :: "error + 'a \<Rightarrow> ('a \<Rightarrow> error + 'b) \<Rightarrow> error + 'b" where
  "bind_e m f = (case m of Inl e \<Rightarrow> Inl e | Inr x \<Rightarrow> f x)"

text \<open>
  \<open>s.encode()\<close>, to UTF-8: the bytes of the string, or \<open>UnicodeEncodeError\<close> where
  it holds a surrogate. The message, which in Python also names the character and its
  position, is cut to its fixed part.
\<close>

definition encode :: "string \<Rightarrow> error + string" where
  "encode s =
     (if has_surrogate s
      then Inl (UnicodeEncodeError
             ([CHR 0x27] @ ''utf-8'' @ [CHR 0x27] @ '' codec can'' @ [CHR 0x27]
              @ ''t encode character: surrogates not allowed''))
      else Inr s)"

text \<open>\<open>needle in haystack\<close> on strings.\<close>

fun starts_with :: "string \<Rightarrow> string \<Rightarrow> bool" where
  "starts_with [] s = True"
| "starts_with (p # ps) [] = False"
| "starts_with (p # ps) (c # cs) = (p = c \<and> starts_with ps cs)"

fun str_contains :: "string \<Rightarrow> string \<Rightarrow> bool" where
  "str_contains needle [] = (needle = [])"
| "str_contains needle (c # cs) = (starts_with needle (c # cs) \<or> str_contains needle cs)"

text \<open>\<open>s.split(sep)\<close> for a separator of one character: always at least one part.\<close>

fun split_str :: "char \<Rightarrow> string \<Rightarrow> string list" where
  "split_str sep [] = [[]]"
| "split_str sep (c # cs) =
     (if c = sep then [] # split_str sep cs
      else (case split_str sep cs of [] \<Rightarrow> [[c]] | p # ps \<Rightarrow> (c # p) # ps))"

text \<open>\<open>str(n)\<close> for a count, in decimal.\<close>

fun str_of_nat :: "nat \<Rightarrow> string" where
  "str_of_nat n =
     (if n < 10 then [''0123456789'' ! n]
      else str_of_nat (n div 10) @ [''0123456789'' ! (n mod 10)])"

text \<open>\<open>a, b = xs\<close>: unpacking raises \<open>ValueError\<close> unless there are exactly two values.\<close>

definition unpack2 :: "'a list \<Rightarrow> error + 'a \<times> 'a" where
  "unpack2 xs =
     (case xs of
        [a, b] \<Rightarrow> Inr (a, b)
      | _ \<Rightarrow>
          Inl (ValueError
                (if length xs < 2
                 then ''not enough values to unpack (expected 2, got '' @ str_of_nat (length xs) @ '')''
                 else ''too many values to unpack (expected 2)'')))"

section \<open>Password hashing (utils/auth.py)\<close>

text \<open>
  \<open>hash_password(password, salt=None)\<close>: the argument \<open>token\<close> is the value
  \<open>secrets.token_hex(16)\<close> returns when it is called, which is only when no salt is given.
\<close>

definition hash_password ::
  "string \<Rightarrow> string option \<Rightarrow> string \<Rightarrow> error + string \<times> string" where
  "hash_password password salt token =
     (let salt = (case salt of None \<Rightarrow> token | Some s \<Rightarrow> s);
          pwd_salt = password @ salt
      in bind_e (encode pwd_salt) (\<lambda>bytes.
         let password_hash = sha256_hexdigest bytes
         in Inr (password_hash, salt)))"

text \<open>The bare \<open>except\<close> turns whatever is raised into \<open>False\<close>.\<close>

definition verify_password :: "string \<Rightarrow> string \<Rightarrow> bool" where
  "verify_password password stored_hash =
     (case bind_e (unpack2 (split_str CHR '':'' stored_hash)) (\<lambda>(salt, hash_value).
           bind_e (hash_password password (Some salt) []) (\<lambda>(computed_hash, _).
           Inr (computed_hash = hash_value))) of
        Inr b \<Rightarrow> b
      | Inl e \<Rightarrow> False)"

section \<open>The database (config/database.py)\<close>

text \<open>
  One record per table row, with the columns of the \<open>CREATE TABLE\<close> statements. A
  table holds its rows in insertion order and the \<open>AUTOINCREMENT\<close> counter; a table that
  has not been created is \<open>None\<close>, and a statement on it raises \<open>OperationalError\<close>.
  \<open>can_open\<close> says whether \<open>sqlite3.connect\<close> succeeds on the file at \<open>DB_PATH\<close>.
  Timestamps and dates are the text that sqlite3 stores. Foreign keys are declared but
  not enforced by SQLite unless switched on, which the code never does.
\<close>

type_synonym timestamp = string
type_synonym date = string

record user_row =
  u_id :: int
  u_username :: string
  u_password_hash :: string
  u_email :: "string option"
  u_created_at :: timestamp
  u_last_login :: "timestamp option"

record budget_plan_row =
  b_id :: int
  b_user_id :: int
  b_category :: string
  b_subcategory :: string
  b_planned_amount :: rat
  b_month :: int
  b_year :: int
  b_created_at :: timestamp

record expense_row =
  e_id :: int
  e_user_id :: int
  e_category :: string
  e_subcategory :: string
  e_amount :: rat
  e_description :: pyval
  e_expense_date :: date
  e_tags :: pyval
  e_created_at :: timestamp
  e_updated_at :: timestamp

record income_row =
  i_id :: int
  i_user_id :: int
  i_source :: pyval
  i_amount :: rat
  i_income_date :: date
  i_description :: pyval
  i_created_at :: timestamp

record preferences_row =
  p_id :: int
  p_user_id :: int
  p_currency :: string
  p_language :: string
  p_theme :: string
  p_notifications :: int

record prediction_row =
  a_id :: int
  a_user_id :: int
  a_category :: string
  a_predicted_amount :: rat
  a_confidence :: "rat option"
  a_prediction_month :: int
  a_prediction_year :: int
  a_created_at :: timestamp

record 'r table =
  rows :: "'r list"
  seq :: int

record database =
  users :: "user_row table option"
  budget_plans :: "budget_plan_row table option"
  expenses :: "expense_row table option"
  income :: "income_row table option"
  user_preferences :: "preferences_row table option"
  ai_predictions :: "prediction_row table option"
  can_open :: bool

text \<open>A database file that has just been created holds no table.\<close>

definition empty_database :: database where
  "empty_database =
     \<lparr>users = None, budget_plans = None, expenses = None, income = None,
      user_preferences = None, ai_predictions = None, can_open = True\<rparr>"

text \<open>
  \<open>get_connection()\<close>: \<open>sqlite3.connect(DB_PATH)\<close> raises \<open>OperationalError\<close> where
  the file cannot be opened.
\<close>

definition get_connection :: "database \<Rightarrow> error + database" where
  "get_connection db =
     (if can_open db then Inr db
      else Inl (OperationalError ''unable to open database file''))"

definition create_table_if_not_exists :: "'r table option \<Rightarrow> 'r table option" where
  "create_table_if_not_exists t =
     (case t of None \<Rightarrow> Some \<lparr>rows = [], seq = 0\<rparr> | Some x \<Rightarrow> Some x)"

text \<open>
  \<open>init_database()\<close> returns no value; the model gives the database it leaves. Where
  the connection does not open, \<open>get_connection\<close> raises, nothing catches it and no
  table is created.
\<close>

definition init_database :: "database \<Rightarrow> error + database" where
  "init_database db =
     bind_e (get_connection db) (\<lambda>conn.
       Inr \<lparr>users = create_table_if_not_exists (users conn),
            budget_plans = create_table_if_not_exists (budget_plans conn),
            expenses = create_table_if_not_exists (expenses conn),
            income = create_table_if_not_exists (income conn),
            user_preferences = create_table_if_not_exists (user_preferences conn),
            ai_predictions = create_table_if_not_exists (ai_predictions conn),
            can_open = can_open conn\<rparr>)"

text \<open>
  \<open>INTEGER PRIMARY KEY AUTOINCREMENT\<close>: the new row id is one more than the largest id
  the table ever held.
\<close>

definition next_rowid :: "int list \<Rightarrow> int \<Rightarrow> int" where
  "next_rowid ids s = fold max ids s + 1"

text \<open>
  Each statement below is the statement as it runs on a connection to the database:
  where the database cannot be opened there is no connection to run it on. The
  statement is compiled first, which is where a missing table is reported; then the
  parameters are bound, and a \<open>str\<close> parameter is encoded to UTF-8; then the statement
  runs, which is where a constraint is checked.
\<close>

definition bind_optional :: "string option \<Rightarrow> error + string option" where
  "bind_optional x =
     (case x of None \<Rightarrow> Inr None | Some s \<Rightarrow> bind_e (encode s) (\<lambda>b. Inr (Some b)))"

text \<open>
  \<open>INSERT INTO users (username, password_hash, email, created_at)\<close>, under
  \<open>username TEXT UNIQUE NOT NULL\<close>; the result is \<open>cursor.lastrowid\<close> and the
  database of the open transaction.
\<close>

definition sql_insert_user ::
  "string \<Rightarrow> string \<Rightarrow> string option \<Rightarrow> timestamp \<Rightarrow> database \<Rightarrow> error + int \<times> database" where
  "sql_insert_user username stored_hash email now db =
     bind_e (get_connection db) (\<lambda>conn.
     case users conn of
       None \<Rightarrow> Inl (OperationalError ''no such table: users'')
     | Some t \<Rightarrow>
         bind_e (encode username) (\<lambda>username.
         bind_e (encode stored_hash) (\<lambda>stored_hash.
         bind_e (bind_optional email) (\<lambda>email.
         if username \<in> set (map u_username (rows t))
         then Inl (IntegrityError ''UNIQUE constraint failed: users.username'')
         else
           (let rid = next_rowid (map u_id (rows t)) (seq t);
                r = \<lparr>u_id = rid, u_username = username, u_password_hash = stored_hash,
                     u_email = email, u_created_at = now, u_last_login = None\<rparr>
            in Inr (rid, conn\<lparr>users := Some \<lparr>rows = rows t @ [r], seq = rid\<rparr>\<rparr>))))))"

text \<open>
  \<open>INSERT INTO user_preferences (user_id)\<close>, under \<open>UNIQUE(user_id)\<close>; the other
  columns take their defaults.
\<close>

definition sql_insert_preferences :: "int \<Rightarrow> database \<Rightarrow> error + database" where
  "sql_insert_preferences user_id db =
     bind_e (get_connection db) (\<lambda>conn.
     case user_preferences conn of
       None \<Rightarrow> Inl (OperationalError ''no such table: user_preferences'')
     | Some t \<Rightarrow>
         if user_id \<in> set (map p_user_id (rows t))
         then Inl (IntegrityError ''UNIQUE constraint failed: user_preferences.user_id'')
         else
           (let rid = next_rowid (map p_id (rows t)) (seq t);
                r = \<lparr>p_id = rid, p_user_id = user_id, p_currency = ''USD'', p_language = ''en'',
                     p_theme = ''light'', p_notifications = 1\<rparr>
            in Inr (conn\<lparr>user_preferences := Some \<lparr>rows = rows t @ [r], seq = rid\<rparr>\<rparr>)))"

text \<open>\<open>SELECT id, username, password_hash FROM users WHERE username = ?\<close>, then \<open>fetchone()\<close>.\<close>

definition sql_select_user :: "string \<Rightarrow> database \<Rightarrow> error + user_row option" where
  "sql_select_user username db =
     bind_e (get_connection db) (\<lambda>conn.
     case users conn of
       None \<Rightarrow> Inl (OperationalError ''no such table: users'')
     | Some t \<Rightarrow>
         bind_e (encode username) (\<lambda>username.
         Inr (find (\<lambda>r. u_username r = username) (rows t))))"

text \<open>\<open>UPDATE users SET last_login = ? WHERE id = ?\<close>\<close>

definition sql_update_last_login :: "timestamp \<Rightarrow> int \<Rightarrow> database \<Rightarrow> error + database" where
  "sql_update_last_login now uid db =
     bind_e (get_connection db) (\<lambda>conn.
     case users conn of
       None \<Rightarrow> Inl (OperationalError ''no such table: users'')
     | Some t \<Rightarrow>
         Inr (conn\<lparr>users :=
                Some (t\<lparr>rows := map (\<lambda>r. if u_id r = uid then r\<lparr>u_last_login := Some now\<rparr> else r)
                                   (rows t)\<rparr>)\<rparr>))"

text \<open>
  \<open>INSERT INTO budget_plans (user_id, category, subcategory, planned_amount, month, year)\<close>,
  under \<open>UNIQUE(user_id, category, subcategory, month, year)\<close>: a row that agrees with a
  stored one on the five columns is refused.
\<close>

definition plan_key :: "budget_plan_row \<Rightarrow> int \<times> string \<times> string \<times> int \<times> int" where
  "plan_key r = (b_user_id r, b_category r, b_subcategory r, b_month r, b_year r)"

definition same_plan_key ::
  "int \<Rightarrow> string \<Rightarrow> string \<Rightarrow> int \<Rightarrow> int \<Rightarrow> budget_plan_row \<Rightarrow> bool" where
  "same_plan_key user_id c s month year r = (plan_key r = (user_id, c, s, month, year))"

definition sql_insert_budget_plan ::
  "int \<Rightarrow> string \<Rightarrow> string \<Rightarrow> rat \<Rightarrow> int \<Rightarrow> int \<Rightarrow> timestamp \<Rightarrow> database \<Rightarrow> error + database" where
  "sql_insert_budget_plan user_id c s planned_amount month year now db =
     bind_e (get_connection db) (\<lambda>conn.
     case budget_plans conn of
       None \<Rightarrow> Inl (OperationalError ''no such table: budget_plans'')
     | Some t \<Rightarrow>
         bind_e (encode c) (\<lambda>c.
         bind_e (encode s) (\<lambda>s.
         if list_ex (same_plan_key user_id c s month year) (rows t)
         then Inl (IntegrityError
                (''UNIQUE constraint failed: budget_plans.user_id, budget_plans.category, ''
                 @ ''budget_plans.subcategory, budget_plans.month, budget_plans.year''))
         else
           (let rid = next_rowid (map b_id (rows t)) (seq t);
                r = \<lparr>b_id = rid, b_user_id = user_id, b_category = c, b_subcategory = s,
                     b_planned_amount = planned_amount, b_month = month, b_year = year,
                     b_created_at = now\<rparr>
            in Inr (conn\<lparr>budget_plans := Some \<lparr>rows = rows t @ [r], seq = rid\<rparr>\<rparr>)))))"

text \<open>
  The statements that write to the database, and a run of them on one connection with
  a commit after each: a statement that raises leaves the database as it was.
\<close>

datatype statement =
    CreateTables
  | InsertUser string string "string option" timestamp
  | InsertPreferences int
  | UpdateLastLogin timestamp int
  | InsertBudgetPlan int string string rat int int timestamp

fun execute :: "statement \<Rightarrow> database \<Rightarrow> error + database" where
  "execute CreateTables db = init_database db"
| "execute (InsertUser username stored_hash email now) db =
     (case sql_insert_user username stored_hash email now db of
        Inl e \<Rightarrow> Inl e
      | Inr (rid, db1) \<Rightarrow> Inr db1)"
| "execute (InsertPreferences user_id) db = sql_insert_preferences user_id db"
| "execute (UpdateLastLogin now uid) db = sql_update_last_login now uid db"
| "execute (InsertBudgetPlan user_id c s planned_amount month year now) db =
     sql_insert_budget_plan user_id c s planned_amount month year now db"

fun execute_all :: "statement list \<Rightarrow> database \<Rightarrow> database" where
  "execute_all [] db = db"
| "execute_all (st # sts) db =
     (case execute st db of
        Inl e \<Rightarrow> execute_all sts db
      | Inr db1 \<Rightarrow> execute_all sts db1)"

section \<open>Registration and login (utils/auth.py)\<close>

text \<open>
  Every operation takes the database and returns its result with the database it
  leaves; \<open>Inl\<close> is an exception that reaches the caller. Statements run in a
  transaction: \<open>conn.commit()\<close> keeps their effect, and \<open>conn.close()\<close> without a
  commit leaves the database as it was. \<open>now\<close> is the value of \<open>datetime.now()\<close>.

  In \<open>register_user\<close> the calls \<open>hash_password(password)\<close> and \<open>get_connection()\<close>
  stand before the \<open>try\<close>, and in \<open>login_user\<close> so does \<open>get_connection()\<close>: what they
  raise is not caught.
\<close>

definition register_user ::
  "string \<Rightarrow> string \<Rightarrow> string option \<Rightarrow> string \<Rightarrow> timestamp \<Rightarrow> database
     \<Rightarrow> (error + pyval) \<times> database" where
  "register_user username password email token now db =
     (if username = [] \<or> len_str username < 3 then
        (Inr (PDict [(''success'', PBool False),
                     (''message'', PStr ''Username must be at least 3 characters long'')]), db)
      else if password = [] \<or> len_str password < 6 then
        (Inr (PDict [(''success'', PBool False),
                     (''message'', PStr ''Password must be at least 6 characters long'')]), db)
      else
        (case hash_password password None token of
           Inl e \<Rightarrow> (Inl e, db)
         | Inr (pwd_hash, salt) \<Rightarrow>
             (let stored_hash = salt @ '':'' @ pwd_hash
              in case get_connection db of
                   Inl e \<Rightarrow> (Inl e, db)
                 | Inr conn \<Rightarrow>
                     (case bind_e (sql_insert_user username stored_hash email now conn)
                             (\<lambda>(user_id, db1).
                           bind_e (sql_insert_preferences user_id db1) (\<lambda>db2.
                           Inr (user_id, db2))) of
                        Inr (user_id, db2) \<Rightarrow>
                          (Inr (PDict [(''success'', PBool True),
                                       (''message'', PStr ''Account created successfully!''),
                                       (''user_id'', PInt user_id)]), db2)
                      | Inl e \<Rightarrow>
                          if str_contains ''UNIQUE constraint failed'' (str_of_error e)
                          then (Inr (PDict [(''success'', PBool False),
                                            (''message'', PStr ''Username already exists'')]), db)
                          else (Inr (PDict [(''success'', PBool False),
                                            (''message'',
                                             PStr (''Error creating account: '' @ str_of_error e))]),
                                db)))))"

definition login_user ::
  "string \<Rightarrow> string \<Rightarrow> timestamp \<Rightarrow> database \<Rightarrow> (error + pyval) \<times> database" where
  "login_user username password now db =
     (case get_connection db of
        Inl e \<Rightarrow> (Inl e, db)
      | Inr conn \<Rightarrow>
          (case bind_e (sql_select_user username conn) (\<lambda>user.
                  case user of
                    None \<Rightarrow>
                      Inr (PDict [(''success'', PBool False),
                                  (''message'', PStr ''Invalid username or password'')], db)
                  | Some user \<Rightarrow>
                      if verify_password password (u_password_hash user) then
                        bind_e (sql_update_last_login now (u_id user) conn) (\<lambda>db1.
                        Inr (PDict [(''success'', PBool True),
                                    (''message'', PStr ''Login successful!''),
                                    (''user_id'', PInt (u_id user)),
                                    (''username'', PStr (u_username user))], db1))
                      else
                        Inr (PDict [(''success'', PBool False),
                                    (''message'', PStr ''Invalid username or password'')], db)) of
             Inr (result, db1) \<Rightarrow> (Inr result, db1)
           | Inl e \<Rightarrow>
               (Inr (PDict [(''success'', PBool False),
                            (''message'', PStr (''Login error: '' @ str_of_error e))]), db)))"


section \<open>Operations on Python values\<close>

definition type_name :: "pyval \<Rightarrow> string" where
  "type_name v =
     (case v of
        PNone \<Rightarrow> ''NoneType'' | PBool b \<Rightarrow> ''bool'' | PInt i \<Rightarrow> ''int'' | PFloat r \<Rightarrow> ''float''
      | PStr s \<Rightarrow> ''str'' | PList xs \<Rightarrow> ''list'' | PDict d \<Rightarrow> ''dict'')"

text \<open>\<open>v[key]\<close> with a string key: only a \<open>dict\<close> holding the key answers.\<close>

definition getitem :: "pyval \<Rightarrow> string \<Rightarrow> error + pyval" where
  "getitem v key =
     (case v of
        PDict d \<Rightarrow>
          (case map_of d key of
             None \<Rightarrow> Inl (KeyError ([CHR 0x27] @ key @ [CHR 0x27]))
           | Some x \<Rightarrow> Inr x)
      | PStr s \<Rightarrow>
          Inl (TypeError (''string indices must be integers, not '' @ [CHR 0x27] @ ''str'' @ [CHR 0x27]))
      | PList xs \<Rightarrow> Inl (TypeError ''list indices must be integers or slices, not str'')
      | _ \<Rightarrow> Inl (TypeError ([CHR 0x27] @ type_name v @ [CHR 0x27] @ '' object is not subscriptable'')))"

text \<open>\<open>v.get(key, default)\<close>: a method of \<open>dict\<close> only.\<close>

definition get_method :: "pyval \<Rightarrow> string \<Rightarrow> pyval \<Rightarrow> error + pyval" where
  "get_method v key dflt =
     (case v of
        PDict d \<Rightarrow> Inr (case map_of d key of None \<Rightarrow> dflt | Some x \<Rightarrow> x)
      | _ \<Rightarrow> Inl (AttributeError ([CHR 0x27] @ type_name v @ [CHR 0x27]
                                   @ '' object has no attribute '' @ [CHR 0x27] @ ''get'' @ [CHR 0x27])))"

text \<open>The code points of a string: a leading byte with the continuation bytes after it.\<close>

function code_points :: "string \<Rightarrow> string list" where
  "code_points [] = []"
| "code_points (c # cs) =
     (c # takeWhile is_continuation cs) # code_points (dropWhile is_continuation cs)"
  by pat_completeness auto
termination
  by (relation "measure length") (auto simp: less_Suc_eq_le length_dropWhile_le)

text \<open>
  \<open>for x in v\<close>: the items of a list, the keys of a dict, the characters of a string;
  anything else is not iterable.
\<close>

definition py_iter :: "pyval \<Rightarrow> error + pyval list" where
  "py_iter v =
     (case v of
        PList xs \<Rightarrow> Inr xs
      | PDict d \<Rightarrow> Inr (map (\<lambda>kv. PStr (fst kv)) d)
      | PStr s \<Rightarrow> Inr (map PStr (code_points s))
      | _ \<Rightarrow> Inl (TypeError ([CHR 0x27] @ type_name v @ [CHR 0x27] @ '' object is not iterable'')))"

text \<open>Truth value of an object, as \<open>if v:\<close> tests it.\<close>

definition truthy :: "pyval \<Rightarrow> bool" where
  "truthy v =
     (case v of
        PNone \<Rightarrow> False | PBool b \<Rightarrow> b | PInt i \<Rightarrow> i \<noteq> 0 | PFloat r \<Rightarrow> r \<noteq> 0
      | PStr s \<Rightarrow> s \<noteq> [] | PList xs \<Rightarrow> xs \<noteq> [] | PDict d \<Rightarrow> d \<noteq> [])"

text \<open>
  Library functions whose result on a string is not computed here are taken as given:
  \<open>json.loads\<close>, \<open>json.dumps(..., indent=2, default=str)\<close>, the parsers behind
  \<open>float(s)\<close> and \<open>int(s)\<close>, and \<open>datetime.fromisoformat(s).date()\<close>.
\<close>

record pylib =
  json_loads :: "string \<Rightarrow> error + pyval"
  json_dumps :: "pyval \<Rightarrow> string"
  float_of_str :: "string \<Rightarrow> error + rat"
  int_of_str :: "string \<Rightarrow> error + int"
  fromisoformat :: "string \<Rightarrow> error + date"

definition py_float :: "pylib \<Rightarrow> pyval \<Rightarrow> error + rat" where
  "py_float lib v =
     (case v of
        PInt i \<Rightarrow> Inr (of_int i)
      | PFloat r \<Rightarrow> Inr r
      | PBool b \<Rightarrow> Inr (if b then 1 else 0)
      | PStr s \<Rightarrow> float_of_str lib s
      | _ \<Rightarrow> Inl (TypeError (''float() argument must be a string or a real number, not ''
                              @ [CHR 0x27] @ type_name v @ [CHR 0x27])))"

definition py_int :: "pylib \<Rightarrow> pyval \<Rightarrow> error + int" where
  "py_int lib v =
     (case v of
        PInt i \<Rightarrow> Inr i
      | PFloat r \<Rightarrow> Inr (if 0 \<le> r then \<lfloor>r\<rfloor> else \<lceil>r\<rceil>)
      | PBool b \<Rightarrow> Inr (if b then 1 else 0)
      | PStr s \<Rightarrow> int_of_str lib s
      | _ \<Rightarrow> Inl (TypeError (''int() argument must be a string, a bytes-like object or a real number, not ''
                              @ [CHR 0x27] @ type_name v @ [CHR 0x27])))"

definition py_fromisoformat :: "pylib \<Rightarrow> pyval \<Rightarrow> error + date" where
  "py_fromisoformat lib v =
     (case v of
        PStr s \<Rightarrow> fromisoformat lib s
      | _ \<Rightarrow> Inl (TypeError ''fromisoformat: argument must be str''))"

section \<open>The ledger (models/expense.py, models/income.py, models/budget.py)\<close>

text \<open>
  These modules are not among the sources; the operations that the export and restore
  code calls are written from the specification's description of the ledger.
\<close>

text \<open>
  Modelled from the spec: the taxonomy invariant, "every expense's (category,
  subcategory) pair must exist in this mapping", as a lookup against the table.
\<close>

definition in_taxonomy :: "pyval \<Rightarrow> pyval \<Rightarrow> bool" where
  "in_taxonomy category subcategory =
     (case category of
        PStr c \<Rightarrow>
          (case subcategory of
             PStr s \<Rightarrow>
               (case map_of BUDGET_CATEGORIES c of
                  None \<Rightarrow> False
                | Some subs \<Rightarrow> s \<in> set subs)
           | _ \<Rightarrow> False)
      | _ \<Rightarrow> False)"

definition success_result :: "string \<Rightarrow> pyval" where
  "success_result msg = PDict [(''success'', PBool True), (''message'', PStr msg)]"

definition failure_result :: "string \<Rightarrow> pyval" where
  "failure_result msg = PDict [(''success'', PBool False), (''message'', PStr msg)]"

text \<open>
  Modelled from the spec: \<open>add_expense\<close> of models/expense.py, the ingestion of one
  expense. A record whose category or subcategory is outside the taxonomy is rejected
  (InvalidCategory, "rejected at ingestion"); an accepted one is stored. The result is
  structured, with \<open>success\<close> and a message, and no exception escapes.
\<close>

definition add_expense ::
  "int \<Rightarrow> pyval \<Rightarrow> pyval \<Rightarrow> rat \<Rightarrow> date \<Rightarrow> pyval \<Rightarrow> pyval \<Rightarrow> timestamp \<Rightarrow> database
     \<Rightarrow> pyval \<times> database" where
  "add_expense user_id category subcategory amount expense_date description tags now db =
     (case (category, subcategory) of
        (PStr c, PStr s) \<Rightarrow>
          if in_taxonomy category subcategory then
            (case expenses db of
               None \<Rightarrow> (failure_result ''no such table: expenses'', db)
             | Some t \<Rightarrow>
                 (let rid = next_rowid (map e_id (rows t)) (seq t);
                      r = \<lparr>e_id = rid, e_user_id = user_id, e_category = c, e_subcategory = s,
                           e_amount = amount, e_description = description,
                           e_expense_date = expense_date, e_tags = tags,
                           e_created_at = now, e_updated_at = now\<rparr>
                  in (success_result ''Expense added'',
                      db\<lparr>expenses := Some \<lparr>rows = rows t @ [r], seq = rid\<rparr>\<rparr>)))
          else (failure_result ''Invalid category or subcategory'', db)
      | _ \<Rightarrow> (failure_result ''Invalid category or subcategory'', db))"

text \<open>
  Modelled from the spec: \<open>add_income\<close> of models/income.py. Income carries "a flat
  source label instead of category/subcategory"; the entry is stored as given.
\<close>

definition add_income ::
  "int \<Rightarrow> pyval \<Rightarrow> rat \<Rightarrow> date \<Rightarrow> pyval \<Rightarrow> timestamp \<Rightarrow> database \<Rightarrow> pyval \<times> database" where
  "add_income user_id source amount income_date description now db =
     (case income db of
        None \<Rightarrow> (failure_result ''no such table: income'', db)
      | Some t \<Rightarrow>
          (let rid = next_rowid (map i_id (rows t)) (seq t);
               r = \<lparr>i_id = rid, i_user_id = user_id, i_source = source, i_amount = amount,
                    i_income_date = income_date, i_description = description,
                    i_created_at = now\<rparr>
           in (success_result ''Income added'',
               db\<lparr>income := Some \<lparr>rows = rows t @ [r], seq = rid\<rparr>\<rparr>)))"

text \<open>
  Modelled from the spec: \<open>set_budget\<close> of models/budget.py. A plan entry is "unique
  per (user, category, subcategory, month, year)" and is written by a "unique-constraint
  upsert": an entry with the same key takes the new amount, otherwise a row is added.
  A pair outside the taxonomy is rejected.
\<close>

definition set_budget ::
  "int \<Rightarrow> pyval \<Rightarrow> pyval \<Rightarrow> rat \<Rightarrow> int \<Rightarrow> int \<Rightarrow> timestamp \<Rightarrow> database \<Rightarrow> pyval \<times> database" where
  "set_budget user_id category subcategory planned_amount month year now db =
     (case (category, subcategory) of
        (PStr c, PStr s) \<Rightarrow>
          if in_taxonomy category subcategory then
            (case budget_plans db of
               None \<Rightarrow> (failure_result ''no such table: budget_plans'', db)
             | Some t \<Rightarrow>
                 if list_ex (same_plan_key user_id c s month year) (rows t) then
                   (success_result ''Budget updated'',
                    db\<lparr>budget_plans :=
                         Some (t\<lparr>rows := map (\<lambda>r. if same_plan_key user_id c s month year r
                                                    then r\<lparr>b_planned_amount := planned_amount\<rparr>
                                                    else r) (rows t)\<rparr>)\<rparr>)
                 else
                   (let rid = next_rowid (map b_id (rows t)) (seq t);
                        r = \<lparr>b_id = rid, b_user_id = user_id, b_category = c, b_subcategory = s,
                             b_planned_amount = planned_amount, b_month = month, b_year = year,
                             b_created_at = now\<rparr>
                    in (success_result ''Budget set'',
                        db\<lparr>budget_plans := Some \<lparr>rows = rows t @ [r], seq = rid\<rparr>\<rparr>)))
          else (failure_result ''Invalid category or subcategory'', db)
      | _ \<Rightarrow> (failure_result ''Invalid category or subcategory'', db))"

definition dict_of_expense_row :: "expense_row \<Rightarrow> pyval" where
  "dict_of_expense_row r =
     PDict [(''id'', PInt (e_id r)), (''user_id'', PInt (e_user_id r)),
            (''category'', PStr (e_category r)), (''subcategory'', PStr (e_subcategory r)),
            (''amount'', PFloat (e_amount r)), (''description'', e_description r),
            (''expense_date'', PStr (e_expense_date r)), (''tags'', e_tags r),
            (''created_at'', PStr (e_created_at r)), (''updated_at'', PStr (e_updated_at r))]"

definition dict_of_income_row :: "income_row \<Rightarrow> pyval" where
  "dict_of_income_row r =
     PDict [(''id'', PInt (i_id r)), (''user_id'', PInt (i_user_id r)),
            (''source'', i_source r), (''amount'', PFloat (i_amount r)),
            (''income_date'', PStr (i_income_date r)), (''description'', i_description r),
            (''created_at'', PStr (i_created_at r))]"

text \<open>
  Modelled from the spec: \<open>get_expenses\<close> of models/expense.py called with a user id
  only, \<open>fetch_transactions(user_id)\<close>: the user's expense records, one dict for each.
\<close>

definition get_expenses :: "int \<Rightarrow> database \<Rightarrow> error + pyval list" where
  "get_expenses user_id db =
     (case expenses db of
        None \<Rightarrow> Inl (OperationalError ''no such table: expenses'')
      | Some t \<Rightarrow> Inr (map dict_of_expense_row (filter (\<lambda>r. e_user_id r = user_id) (rows t))))"

text \<open>
  Modelled from the spec: \<open>get_income\<close> of models/income.py called with a user id
  only: the user's income records, one dict for each.
\<close>

definition get_income :: "int \<Rightarrow> database \<Rightarrow> error + pyval list" where
  "get_income user_id db =
     (case income db of
        None \<Rightarrow> Inl (OperationalError ''no such table: income'')
      | Some t \<Rightarrow> Inr (map dict_of_income_row (filter (\<lambda>r. i_user_id r = user_id) (rows t))))"


section \<open>Backup and restore (utils/data_export.py)\<close>

text \<open>
  A cursor after \<open>execute\<close> of a \<open>SELECT\<close> is the list of rows still to be fetched:
  \<open>fetchall\<close> takes them all, \<open>fetchone\<close> takes the first or answers \<open>None\<close>.
\<close>

definition sql_select_budget_plans :: "int \<Rightarrow> database \<Rightarrow> error + budget_plan_row list" where
  "sql_select_budget_plans user_id db =
     bind_e (get_connection db) (\<lambda>conn.
     case budget_plans conn of
       None \<Rightarrow> Inl (OperationalError ''no such table: budget_plans'')
     | Some t \<Rightarrow> Inr (filter (\<lambda>r. b_user_id r = user_id) (rows t)))"

definition sql_select_preferences :: "int \<Rightarrow> database \<Rightarrow> error + preferences_row list" where
  "sql_select_preferences user_id db =
     bind_e (get_connection db) (\<lambda>conn.
     case user_preferences conn of
       None \<Rightarrow> Inl (OperationalError ''no such table: user_preferences'')
     | Some t \<Rightarrow> Inr (filter (\<lambda>r. p_user_id r = user_id) (rows t)))"

definition fetchall :: "'r list \<Rightarrow> 'r list \<times> 'r list" where
  "fetchall cursor = (cursor, [])"

definition fetchone :: "'r list \<Rightarrow> 'r option \<times> 'r list" where
  "fetchone cursor = (case cursor of [] \<Rightarrow> (None, []) | r # rest \<Rightarrow> (Some r, rest))"

definition dict_of_budget_plan_row :: "budget_plan_row \<Rightarrow> pyval" where
  "dict_of_budget_plan_row r =
     PDict [(''id'', PInt (b_id r)), (''user_id'', PInt (b_user_id r)),
            (''category'', PStr (b_category r)), (''subcategory'', PStr (b_subcategory r)),
            (''planned_amount'', PFloat (b_planned_amount r)),
            (''month'', PInt (b_month r)), (''year'', PInt (b_year r)),
            (''created_at'', PStr (b_created_at r))]"

definition dict_of_preferences_row :: "preferences_row \<Rightarrow> pyval" where
  "dict_of_preferences_row r =
     PDict [(''id'', PInt (p_id r)), (''user_id'', PInt (p_user_id r)),
            (''currency'', PStr (p_currency r)), (''language'', PStr (p_language r)),
            (''theme'', PStr (p_theme r)), (''notifications'', PInt (p_notifications r))]"

text \<open>\<open>dict(x)\<close> on what \<open>fetchone\<close> answered: \<open>dict(None)\<close> raises \<open>TypeError\<close>.\<close>

definition dict_row :: "('r \<Rightarrow> pyval) \<Rightarrow> 'r option \<Rightarrow> error + pyval" where
  "dict_row f x =
     (case x of
        None \<Rightarrow> Inl (TypeError ([CHR 0x27] @ ''NoneType'' @ [CHR 0x27] @ '' object is not iterable''))
      | Some r \<Rightarrow> Inr (f r))"

text \<open>
  \<open>create_full_backup\<close> has no \<open>try\<close>: whatever is raised inside reaches the caller.
  In \<open>dict(cursor.fetchone()) if cursor.fetchone() else {}\<close> the condition is evaluated
  first and fetches a row; the row that \<open>dict\<close> receives is the next one. A
  \<open>sqlite3.Row\<close> of \<open>SELECT *\<close> has columns, so it is true.
\<close>

definition create_full_backup :: "int \<Rightarrow> timestamp \<Rightarrow> database \<Rightarrow> error + pyval" where
  "create_full_backup user_id now db =
     bind_e (get_connection db) (\<lambda>conn.
     bind_e (get_expenses user_id db) (\<lambda>df_expenses.
     bind_e (get_income user_id db) (\<lambda>df_income.
     bind_e (sql_select_budget_plans user_id conn) (\<lambda>cursor.
     bind_e (sql_select_preferences user_id conn) (\<lambda>cursor2.
     bind_e (let (tested, cursor3) = fetchone cursor2 in
             if tested \<noteq> None
             then (let (fetched, cursor4) = fetchone cursor3
                   in dict_row dict_of_preferences_row fetched)
             else Inr (PDict []))
       (\<lambda>preferences.
     Inr (PDict [(''backup_date'', PStr now),
                 (''version'', PStr ''1.0''),
                 (''user_id'', PInt user_id),
                 (''expenses'', PList (if df_expenses \<noteq> [] then df_expenses else [])),
                 (''income'', PList (if df_income \<noteq> [] then df_income else [])),
                 (''budgets'', PList (map dict_of_budget_plan_row (fst (fetchall cursor)))),
                 (''preferences'', preferences)])))))))"

definition export_backup_json :: "pylib \<Rightarrow> int \<Rightarrow> timestamp \<Rightarrow> database \<Rightarrow> error + string" where
  "export_backup_json lib user_id now db =
     bind_e (create_full_backup user_id now db) (\<lambda>backup_data.
     Inr (json_dumps lib backup_data))"

text \<open>
  Restoring: each ledger call commits on its own, so what was stored before an exception
  stays stored. An operation with the database is a pair of its outcome and the
  database it leaves.
\<close>

definition bind_s ::
  "(error + 'a) \<times> database \<Rightarrow> ('a \<Rightarrow> database \<Rightarrow> (error + 'b) \<times> database)
     \<Rightarrow> (error + 'b) \<times> database" where
  "bind_s m f = (case m of (Inl e, db) \<Rightarrow> (Inl e, db) | (Inr x, db) \<Rightarrow> f x db)"

text \<open>What follows a ledger call in each \<open>for\<close> loop: the answer is whether the entry was counted.\<close>

definition counted :: "pyval \<times> database \<Rightarrow> (error + bool) \<times> database" where
  "counted rd =
     (case rd of (result, db) \<Rightarrow>
        (case getitem result ''success'' of
           Inl e \<Rightarrow> (Inl e, db)
         | Inr s \<Rightarrow> (Inr (truthy s), db)))"

definition restore_expense ::
  "pylib \<Rightarrow> int \<Rightarrow> timestamp \<Rightarrow> pyval \<Rightarrow> database \<Rightarrow> (error + bool) \<times> database" where
  "restore_expense lib user_id now expense db =
     bind_s (bind_e (getitem expense ''category'') (\<lambda>category.
             bind_e (getitem expense ''subcategory'') (\<lambda>subcategory.
             bind_e (bind_e (getitem expense ''amount'') (py_float lib)) (\<lambda>amount.
             bind_e (bind_e (getitem expense ''expense_date'') (py_fromisoformat lib)) (\<lambda>expense_date.
             bind_e (get_method expense ''description'' (PStr [])) (\<lambda>description.
             bind_e (get_method expense ''tags'' (PStr [])) (\<lambda>tags.
             Inr (category, subcategory, amount, expense_date, description, tags))))))), db)
       (\<lambda>(category, subcategory, amount, expense_date, description, tags) db.
          counted (add_expense user_id category subcategory amount expense_date
                     description tags now db))"

definition restore_income ::
  "pylib \<Rightarrow> int \<Rightarrow> timestamp \<Rightarrow> pyval \<Rightarrow> database \<Rightarrow> (error + bool) \<times> database" where
  "restore_income lib user_id now inc db =
     bind_s (bind_e (getitem inc ''source'') (\<lambda>source.
             bind_e (bind_e (getitem inc ''amount'') (py_float lib)) (\<lambda>amount.
             bind_e (bind_e (getitem inc ''income_date'') (py_fromisoformat lib)) (\<lambda>income_date.
             bind_e (get_method inc ''description'' (PStr [])) (\<lambda>description.
             Inr (source, amount, income_date, description))))), db)
       (\<lambda>(source, amount, income_date, description) db.
          counted (add_income user_id source amount income_date description now db))"

definition restore_budget ::
  "pylib \<Rightarrow> int \<Rightarrow> timestamp \<Rightarrow> pyval \<Rightarrow> database \<Rightarrow> (error + bool) \<times> database" where
  "restore_budget lib user_id now budget db =
     bind_s (bind_e (getitem budget ''category'') (\<lambda>category.
             bind_e (getitem budget ''subcategory'') (\<lambda>subcategory.
             bind_e (bind_e (getitem budget ''planned_amount'') (py_float lib)) (\<lambda>planned_amount.
             bind_e (bind_e (getitem budget ''month'') (py_int lib)) (\<lambda>month.
             bind_e (bind_e (getitem budget ''year'') (py_int lib)) (\<lambda>year.
             Inr (category, subcategory, planned_amount, month, year)))))), db)
       (\<lambda>(category, subcategory, planned_amount, month, year) db.
          counted (set_budget user_id category subcategory planned_amount month year now db))"

text \<open>A \<open>for\<close> loop over the entries, counting those whose result reports success.\<close>

fun restore_loop ::
  "(pyval \<Rightarrow> database \<Rightarrow> (error + bool) \<times> database) \<Rightarrow> pyval list \<Rightarrow> nat \<Rightarrow> database
     \<Rightarrow> (error + nat) \<times> database" where
  "restore_loop body [] n db = (Inr n, db)"
| "restore_loop body (x # xs) n db =
     bind_s (body x db) (\<lambda>c db1. restore_loop body xs (if c then n + 1 else n) db1)"

definition restore_from_backup ::
  "pylib \<Rightarrow> int \<Rightarrow> string \<Rightarrow> timestamp \<Rightarrow> database \<Rightarrow> (error + pyval) \<times> database" where
  "restore_from_backup lib user_id backup_json now db =
     (case
        bind_s (json_loads lib backup_json, db) (\<lambda>backup_data db.
        bind_s (bind_e (get_method backup_data ''expenses'' (PList [])) py_iter, db) (\<lambda>exps db.
        bind_s (restore_loop (restore_expense lib user_id now) exps 0 db) (\<lambda>n_expenses db.
        bind_s (bind_e (get_method backup_data ''income'' (PList [])) py_iter, db) (\<lambda>incs db.
        bind_s (restore_loop (restore_income lib user_id now) incs 0 db) (\<lambda>n_income db.
        bind_s (bind_e (get_method backup_data ''budgets'' (PList [])) py_iter, db) (\<lambda>budgets db.
        bind_s (restore_loop (restore_budget lib user_id now) budgets 0 db) (\<lambda>n_budgets db.
          (Inr (PDict [(''success'', PBool True),
                       (''message'', PStr (''Restored '' @ str_of_nat n_expenses @ '' expenses, ''
                                           @ str_of_nat n_income @ '' income entries, ''
                                           @ str_of_nat n_budgets @ '' budgets'')),
                       (''details'', PDict [(''expenses'', PInt (int n_expenses)),
                                            (''income'', PInt (int n_income)),
                                            (''budgets'', PInt (int n_budgets))])]),
           db))))))))
      of
        (Inr result, db1) \<Rightarrow> (Inr result, db1)
      | (Inl e, db1) \<Rightarrow>
          (Inr (PDict [(''success'', PBool False),
                       (''message'', PStr (''Error restoring backup: '' @ str_of_error e))]),
           db1))"


section \<open>Reconciliation and monthly balance (models/budget.py, models/income.py)\<close>

record comparison_row =
  c_category :: string
  c_subcategory :: string
  c_planned_amount :: rat
  c_actual_amount :: rat
  c_difference :: rat
  c_percentage :: "rat option"
  c_status :: string

text \<open>
  Modelled from the spec: \<open>round(x, 1)\<close> of the percentage, the rounding to one
  decimal that models/budget.py applies; a tie goes to the even digit, as the language's
  \<open>round\<close> has it.
\<close>

definition round1 :: "rat \<Rightarrow> rat" where
  "round1 x =
     (let y = x * 10; f = \<lfloor>y\<rfloor>; d = y - of_int f
      in of_int (if d < 1 / 2 then f else if 1 / 2 < d then f + 1
                 else if even f then f else f + 1) / 10)"

text \<open>
  Modelled from the spec: the status thresholds of models/budget.py, "Under Budget if
  percentage < 90, On Track if 90 \<le> percentage \<le> 110, Over Budget if percentage > 110".
\<close>

definition status_of :: "rat \<Rightarrow> string" where
  "status_of percentage =
     (if percentage < 90 then ''Under Budget''
      else if percentage \<le> 110 then ''On Track''
      else ''Over Budget'')"

text \<open>
  Modelled from the spec: one row of \<open>get_budget_vs_actual\<close> of models/budget.py.
  With a plan, the percentage is \<open>round(actual/planned*100, 1)\<close> and the status follows
  the thresholds; with no plan and some spending the percentage is the sentinel and the
  status "No Budget Set"; with neither, there is no row.
\<close>

definition comparison_row_of :: "string \<Rightarrow> string \<Rightarrow> rat \<Rightarrow> rat \<Rightarrow> comparison_row option" where
  "comparison_row_of category subcategory planned actual =
     (if 0 < planned then
        (let percentage = round1 (actual / planned * 100)
         in Some \<lparr>c_category = category, c_subcategory = subcategory,
                  c_planned_amount = planned, c_actual_amount = actual,
                  c_difference = actual - planned, c_percentage = Some percentage,
                  c_status = status_of percentage\<rparr>)
      else if 0 < actual then
        Some \<lparr>c_category = category, c_subcategory = subcategory,
              c_planned_amount = planned, c_actual_amount = actual,
              c_difference = actual - planned, c_percentage = None,
              c_status = ''No Budget Set''\<rparr>
      else None)"

text \<open>
  Modelled from the spec: \<open>get_budget_vs_actual\<close> of models/budget.py, the contract
  \<open>reconcile(plans, actuals, month, year)\<close>: one row for every (category, subcategory)
  in the period's plan or in the period's actual spending. \<open>actuals\<close> is the aggregated
  spending of the period by (category, subcategory).
\<close>

definition reconcile ::
  "budget_plan_row list \<Rightarrow> ((string \<times> string) \<times> rat) list \<Rightarrow> int \<Rightarrow> int \<Rightarrow> comparison_row list" where
  "reconcile plans actuals month year =
     (let planned = map (\<lambda>r. ((b_category r, b_subcategory r), b_planned_amount r))
                        (filter (\<lambda>r. b_month r = month \<and> b_year r = year) plans);
          keys = remdups (map fst planned @ map fst actuals)
      in List.map_filter
           (\<lambda>k. comparison_row_of (fst k) (snd k)
                  (case map_of planned k of None \<Rightarrow> 0 | Some a \<Rightarrow> a)
                  (case map_of actuals k of None \<Rightarrow> 0 | Some a \<Rightarrow> a))
           keys)"

record balance_info =
  bal_income :: rat
  bal_expenses :: rat
  bal_balance :: rat
  bal_savings_rate :: rat

text \<open>
  Modelled from the spec: \<open>get_monthly_balance\<close> of models/income.py,
  \<open>fetch_monthly_balance(user_id, month, year) -> {income, expenses, balance,
  savings_rate}\<close>, on the income amounts and the expense amounts of the user's period.
  The savings rate is \<open>(income - expenses) / income * 100\<close>; without income the zero
  denominator takes its own branch and the rate is reported as 0.
\<close>

definition get_monthly_balance :: "rat list \<Rightarrow> rat list \<Rightarrow> balance_info" where
  "get_monthly_balance income_amounts expense_amounts =
     (let total_income = sum_list income_amounts;
          total_expenses = sum_list expense_amounts
      in \<lparr>bal_income = total_income, bal_expenses = total_expenses,
          bal_balance = total_income - total_expenses,
          bal_savings_rate =
            (if 0 < total_income then (total_income - total_expenses) / total_income * 100
             else 0)\<rparr>)"


section \<open>Results and sample data\<close>

text \<open>
  A structured result: a dict with a boolean under \<open>success\<close> and a string under
  \<open>message\<close>, handed back and not raised.
\<close>

definition structured_result :: "error + pyval \<Rightarrow> bool" where
  "structured_result r =
     (case r of
        Inr (PDict d) \<Rightarrow>
          (case map_of d ''success'' of
             Some (PBool b) \<Rightarrow>
               (case map_of d ''message'' of Some (PStr m) \<Rightarrow> True | _ \<Rightarrow> False)
           | _ \<Rightarrow> False)
      | _ \<Rightarrow> False)"

text \<open>
  A database as the application has it after start-up, the six tables that
  \<open>init_database()\<close> creates on a new file, all empty, and after one registration:
  \<open>register_user("alice", "secret1")\<close> with a salt from \<open>secrets.token_hex(16)\<close>.
\<close>

definition fresh_db :: database where
  "fresh_db =
     \<lparr>users = Some \<lparr>rows = [], seq = 0\<rparr>, budget_plans = Some \<lparr>rows = [], seq = 0\<rparr>,
      expenses = Some \<lparr>rows = [], seq = 0\<rparr>, income = Some \<lparr>rows = [], seq = 0\<rparr>,
      user_preferences = Some \<lparr>rows = [], seq = 0\<rparr>,
      ai_predictions = Some \<lparr>rows = [], seq = 0\<rparr>, can_open = True\<rparr>"

definition sample_token :: string where
  "sample_token = ''00112233445566778899aabbccddeeff''"

definition alice_db :: database where
  "alice_db =
     snd (register_user ''alice'' ''secret1'' None sample_token ''2024-01-01 09:00:00'' fresh_db)"

text \<open>
  The row that this registration writes: the stored hash is the salt, a colon and the
  SHA-256 hexdigest of \<open>secret1\<close> followed by the salt.
\<close>

definition alice_row :: user_row where
  "alice_row =
     \<lparr>u_id = 1, u_username = ''alice'',
      u_password_hash =
        ''00112233445566778899aabbccddeeff:433a6384062160686e91491c9a8e954ee628ff457ed6af8869f6fdeb95147857'',
      u_email = None, u_created_at = ''2024-01-01 09:00:00'', u_last_login = None\<rparr>"

text \<open>The seven characters \<open>secret\<close> and the lone surrogate \<open>U+D800\<close>.\<close>

definition surrogate_password :: string where
  "surrogate_password = ''secret'' @ [CHR 0xED, CHR 0xA0, CHR 0x80]"

text \<open>
  Library functions for the sample runs: \<open>json.loads\<close> on the one backup text used
  below, and parsers that know the numbers and the date in it.
\<close>

definition sample_backup_json :: string where
  \<open>sample_backup_json =
     ''{"expenses": [{"category": "Food", "subcategory": "Groceries", "amount": 100, ''
     @ ''"expense_date": "2024-01-15"}, {"category": "Food", "subcategory": "Rockets", ''
     @ ''"amount": 600, "expense_date": "2024-02-15"}], ''
     @ ''"budgets": [{"category": "Housing", "subcategory": "Electricity", ''
     @ ''"planned_amount": 300, "month": 2, "year": 2024}]}''\<close>

definition sample_backup :: pyval where
  "sample_backup =
     PDict [(''expenses'',
             PList [PDict [(''category'', PStr ''Food''), (''subcategory'', PStr ''Groceries''),
                           (''amount'', PInt 100), (''expense_date'', PStr ''2024-01-15'')],
                    PDict [(''category'', PStr ''Food''), (''subcategory'', PStr ''Rockets''),
                           (''amount'', PInt 600), (''expense_date'', PStr ''2024-02-15'')]]),
            (''budgets'',
             PList [PDict [(''category'', PStr ''Housing''), (''subcategory'', PStr ''Electricity''),
                           (''planned_amount'', PInt 300), (''month'', PInt 2),
                           (''year'', PInt 2024)]])]"

definition sample_lib :: pylib where
  "sample_lib =
     \<lparr>json_loads = (\<lambda>s. if s = sample_backup_json then Inr sample_backup
                         else Inl (JSONDecodeError ''Expecting value: line 1 column 1 (char 0)'')),
      json_dumps = (\<lambda>v. ''{}''),
      float_of_str = (\<lambda>s. Inl (ValueError (''could not convert string to float: '' @ s))),
      int_of_str = (\<lambda>s. Inl (ValueError (''invalid literal for int() with base 10: '' @ s))),
      fromisoformat = (\<lambda>s. if s = ''2024-01-15'' \<or> s = ''2024-02-15'' then Inr s
                           else Inl (ValueError (''Invalid isoformat string: '' @ s)))\<rparr>"

section \<open>Notions used in the statements\<close>

text \<open>The rows of a table, none when the table is missing.\<close>

definition expense_rows :: "database \<Rightarrow> expense_row list" where
  "expense_rows db = (case expenses db of None \<Rightarrow> [] | Some t \<Rightarrow> rows t)"

definition budget_rows :: "database \<Rightarrow> budget_plan_row list" where
  "budget_rows db = (case budget_plans db of None \<Rightarrow> [] | Some t \<Rightarrow> rows t)"

text \<open>An entry of a backup whose category and subcategory are a pair of the taxonomy.\<close>

definition entry_in_taxonomy :: "pyval \<Rightarrow> bool" where
  "entry_in_taxonomy entry =
     (case getitem entry ''category'' of
        Inl e \<Rightarrow> False
      | Inr category \<Rightarrow>
          (case getitem entry ''subcategory'' of
             Inl e \<Rightarrow> False
           | Inr subcategory \<Rightarrow> in_taxonomy category subcategory))"

text \<open>The entries that a loop of \<open>restore_from_backup\<close> runs over, for one key of the backup.\<close>

definition backup_entries :: "pylib \<Rightarrow> string \<Rightarrow> string \<Rightarrow> pyval list" where
  "backup_entries lib backup_json key =
     (case json_loads lib backup_json of
        Inl e \<Rightarrow> []
      | Inr backup_data \<Rightarrow>
          (case bind_e (get_method backup_data key (PList [])) py_iter of
             Inl e \<Rightarrow> []
           | Inr xs \<Rightarrow> xs))"

text \<open>\<open>result["details"][key]\<close>, the number of entries reported as restored.\<close>

definition restored_count :: "error + pyval \<Rightarrow> string \<Rightarrow> int option" where
  "restored_count r key =
     (case r of
        Inr (PDict d) \<Rightarrow>
          (case map_of d ''details'' of
             Some (PDict details) \<Rightarrow>
               (case map_of details key of Some (PInt n) \<Rightarrow> Some n | _ \<Rightarrow> None)
           | _ \<Rightarrow> None)
      | _ \<Rightarrow> None)"

text \<open>
  Between two databases: every expense row and every budget row of the second is a row
  of the first or carries a pair of the taxonomy.
\<close>

definition only_taxonomy_rows_added :: "database \<Rightarrow> database \<Rightarrow> bool" where
  "only_taxonomy_rows_added db db1 =
     ((\<forall>r \<in> set (expense_rows db1).
         r \<in> set (expense_rows db) \<or> in_taxonomy (PStr (e_category r)) (PStr (e_subcategory r)))
      \<and> (\<forall>r \<in> set (budget_rows db1).
         r \<in> set (budget_rows db) \<or> in_taxonomy (PStr (b_category r)) (PStr (b_subcategory r))))"

text \<open>The table of budget plans exists and no two of its rows have the same key.\<close>

definition unique_plans :: "database \<Rightarrow> bool" where
  "unique_plans db =
     (case budget_plans db of
        None \<Rightarrow> False
      | Some t \<Rightarrow> distinct (map plan_key (rows t)))"

text \<open>A run of statements: three inserts of budget plans, the second repeating the first key.\<close>

definition sample_statements :: "statement list" where
  "sample_statements =
     [InsertBudgetPlan 1 ''Food'' ''Groceries'' 100 1 2024 ''2024-01-02 08:00:00'',
      InsertBudgetPlan 1 ''Food'' ''Groceries'' 250 1 2024 ''2024-01-03 08:00:00'',
      InsertBudgetPlan 1 ''Food'' ''Groceries'' 100 2 2024 ''2024-02-01 08:00:00'']"

text \<open>A period with one plan and two subcategories with spending.\<close>

definition sample_plans :: "budget_plan_row list" where
  "sample_plans =
     [\<lparr>b_id = 1, b_user_id = 1, b_category = ''Housing'', b_subcategory = ''Electricity'',
       b_planned_amount = 300, b_month = 2, b_year = 2024,
       b_created_at = ''2024-02-01 08:00:00''\<rparr>]"

definition sample_actuals :: "((string \<times> string) \<times> rat) list" where
  "sample_actuals = [((''Housing'', ''Electricity''), 330), ((''Food'', ''Groceries''), 600)]"

section \<open>The taxonomy is total and consistent\<close>

lemma budget_categories_keys:
  "map fst BUDGET_CATEGORIES =
     [''Children'', ''Entertainment'', ''Food'', ''Gifts and Charity'', ''Housing'', ''Insurance'',
      ''Loans'', ''Personal Care'', ''Pets'', ''Savings or Investments'', ''Taxes'',
      ''Transportation'']"
  by (simp add: BUDGET_CATEGORIES_def)

lemma category_colors_keys: "map fst CATEGORY_COLORS = map fst BUDGET_CATEGORIES"
  by (simp add: budget_categories_keys) (simp add: CATEGORY_COLORS_def)

lemma category_icons_keys: "map fst CATEGORY_ICONS = map fst BUDGET_CATEGORIES"
  by (simp add: budget_categories_keys) (simp add: CATEGORY_ICONS_def)

lemma subcategories_nonempty: "\<forall>kv \<in> set BUDGET_CATEGORIES. snd kv \<noteq> []"
  by (simp add: BUDGET_CATEGORIES_def)

lemma map_of_key_defined: "k \<in> set (map fst xs) \<Longrightarrow> map_of xs k \<noteq> None"
  by (simp add: map_of_eq_None_iff)

lemma income_labels_apart: "set INCOME_CATEGORIES \<inter> set (map fst BUDGET_CATEGORIES) = {}"
  by (simp add: budget_categories_keys) (simp add: INCOME_CATEGORIES_def)

text \<open>
  C7. \<open>get_all_categories()\<close> returns exactly the keys of \<open>BUDGET_CATEGORIES\<close>, each
  once. For every such category \<open>get_subcategories\<close> returns its list of subcategories,
  which is not empty, and \<open>CATEGORY_COLORS\<close> and \<open>CATEGORY_ICONS\<close> have an entry for
  it. For every string that is not a key, \<open>get_subcategories\<close> returns the empty list.
  \<open>INCOME_CATEGORIES\<close> is a list of labels of its own: it is not empty and none of its
  labels is a category.
\<close>

theorem taxonomy_total_consistent:
  "get_all_categories = map fst BUDGET_CATEGORIES
   \<and> set get_all_categories = dom (map_of BUDGET_CATEGORIES)
   \<and> distinct get_all_categories
   \<and> (\<forall>c \<in> set get_all_categories.
         map_of BUDGET_CATEGORIES c = Some (get_subcategories c)
         \<and> get_subcategories c \<noteq> []
         \<and> map_of CATEGORY_COLORS c \<noteq> None
         \<and> map_of CATEGORY_ICONS c \<noteq> None)
   \<and> (\<forall>c. c \<notin> set (map fst BUDGET_CATEGORIES) \<longrightarrow> get_subcategories c = [])
   \<and> INCOME_CATEGORIES \<noteq> []
   \<and> get_income_categories = INCOME_CATEGORIES
   \<and> set INCOME_CATEGORIES \<inter> set get_all_categories = {}"
proof (intro conjI ballI allI impI)
  show "get_all_categories = map fst BUDGET_CATEGORIES"
    by (simp add: get_all_categories_def)
  show "set get_all_categories = dom (map_of BUDGET_CATEGORIES)"
    by (simp add: get_all_categories_def dom_map_of_conv_image_fst)
  show "distinct get_all_categories"
    by (simp add: get_all_categories_def budget_categories_keys)
  show "INCOME_CATEGORIES \<noteq> []"
    by (simp add: INCOME_CATEGORIES_def)
  show "get_income_categories = INCOME_CATEGORIES"
    by (simp add: get_income_categories_def)
  show "set INCOME_CATEGORIES \<inter> set get_all_categories = {}"
    unfolding get_all_categories_def by (rule income_labels_apart)
next
  fix c
  assume "c \<notin> set (map fst BUDGET_CATEGORIES)"
  then have "map_of BUDGET_CATEGORIES c = None"
    by (simp add: map_of_eq_None_iff)
  then show "get_subcategories c = []"
    by (simp add: get_subcategories_def)
next
  fix c
  assume c: "c \<in> set get_all_categories"
  then have k: "c \<in> set (map fst BUDGET_CATEGORIES)"
    by (simp add: get_all_categories_def)
  then obtain subs where s: "map_of BUDGET_CATEGORIES c = Some subs"
    using map_of_key_defined by fastforce
  then show "map_of BUDGET_CATEGORIES c = Some (get_subcategories c)"
    by (simp add: get_subcategories_def)
  from s have "(c, subs) \<in> set BUDGET_CATEGORIES"
    by (rule map_of_SomeD)
  with subcategories_nonempty have "subs \<noteq> []" by fastforce
  with s show "get_subcategories c \<noteq> []"
    by (simp add: get_subcategories_def)
  from k show "map_of CATEGORY_COLORS c \<noteq> None"
    by (intro map_of_key_defined) (simp only: category_colors_keys)
  from k show "map_of CATEGORY_ICONS c \<noteq> None"
    by (intro map_of_key_defined) (simp only: category_icons_keys)
qed

lemma get_subcategories_food:
  "get_subcategories ''Food'' =
     [''Dining Out & Catering'', ''Groceries'', ''Fruits & Vegetables'', ''Meat & Deli'',
      ''Fish & Seafood'']"
  by (simp add: get_subcategories_def BUDGET_CATEGORIES_def)

text \<open>The theorem at the category \<open>Food\<close> and at the string \<open>Travel\<close>, which is no key.\<close>

theorem taxonomy_total_consistent_witness:
  "''Food'' \<in> set get_all_categories
   \<and> map_of BUDGET_CATEGORIES ''Food'' = Some (get_subcategories ''Food'')
   \<and> get_subcategories ''Food'' \<noteq> []
   \<and> map_of CATEGORY_COLORS ''Food'' \<noteq> None
   \<and> map_of CATEGORY_ICONS ''Food'' \<noteq> None
   \<and> ''Travel'' \<notin> set (map fst BUDGET_CATEGORIES)
   \<and> get_subcategories ''Travel'' = []"
proof -
  have food: "''Food'' \<in> set get_all_categories"
    by (simp add: get_all_categories_def budget_categories_keys)
  have travel: "''Travel'' \<notin> set (map fst BUDGET_CATEGORIES)"
    by (simp add: budget_categories_keys)
  from taxonomy_total_consistent food travel show ?thesis
    by blast
qed

section \<open>Password verification\<close>

lemma split_str_no_sep: "sep \<notin> set s \<Longrightarrow> split_str sep s = [s]"
  by (induction s) auto

lemma split_str_append:
  "sep \<notin> set a \<Longrightarrow> split_str sep (a @ sep # b) = a # split_str sep b"
  by (induction a) auto

lemma unpack2_two: "unpack2 [a, b] = Inr (a, b)"
  by (simp add: unpack2_def)

lemma unpack2_other: "length xs \<noteq> 2 \<Longrightarrow> \<exists>e. unpack2 xs = Inl e"
  by (auto simp: unpack2_def split: list.splits)

lemma hex_digit_in: "hex_digit n \<in> set ''0123456789abcdef''"
proof -
  have "and n 15 \<le> 15" by (rule word_and_le1)
  then have "unat (and n 15) \<le> 15" by (simp add: word_le_nat_alt)
  then have "unat (and n 15) < length ''0123456789abcdef''" by simp
  then show ?thesis
    unfolding hex_digit_def by (rule nth_mem)
qed

lemma hex_digit_not_colon: "hex_digit n \<noteq> CHR '':''"
  using hex_digit_in [of n] by auto

text \<open>A hexdigest is made of hexadecimal digits: it holds no colon and no surrogate.\<close>

lemma sha256_hexdigest_no_colon: "CHR '':'' \<notin> set (sha256_hexdigest s)"
  by (auto simp: sha256_hexdigest_def hex_word_def hex_digit_not_colon [THEN not_sym])







lemma hash_password_returns:
  "\<not> has_surrogate (p @ s) \<Longrightarrow>
     hash_password p (Some s) token = Inr (sha256_hexdigest (p @ s), s)"
  by (simp add: hash_password_def encode_def bind_e_def Let_def)

lemma hash_password_token:
  "\<not> has_surrogate (p @ token) \<Longrightarrow>
     hash_password p None token = Inr (sha256_hexdigest (p @ token), token)"
  by (simp add: hash_password_def encode_def bind_e_def Let_def)

lemma hash_password_raises:
  "has_surrogate (p @ (case salt of None \<Rightarrow> token | Some s \<Rightarrow> s)) \<Longrightarrow>
     \<exists>m. hash_password p salt token = Inl (UnicodeEncodeError m)"
  by (simp add: hash_password_def encode_def bind_e_def Let_def)

lemma hash_password_Inr:
  "hash_password p (Some s) token = Inr (h, s2) \<Longrightarrow>
     h = sha256_hexdigest (p @ s) \<and> s2 = s \<and> \<not> has_surrogate (p @ s)"
  by (auto simp: hash_password_def encode_def bind_e_def Let_def split: if_splits)

text \<open>
  C8, as amended. For every password \<open>p\<close> and every salt \<open>s\<close> that holds no colon, the
  stored string \<open>s + ":" + hash_password(p, s)[0]\<close>, the format that \<open>register_user\<close>
  writes, is accepted by \<open>verify_password(p, stored)\<close>; \<open>h\<close> is the hash that
  \<open>hash_password(p, s)\<close> returns. And for every stored string that does not split into
  exactly two parts around the colon, \<open>verify_password\<close> answers \<open>False\<close>; the unpacking
  error is caught.
\<close>

theorem verify_password_roundtrip:
  "(CHR '':'' \<notin> set s \<and> hash_password p (Some s) token = Inr (h, s2) \<longrightarrow>
      verify_password p (s @ '':'' @ h))
   \<and> (length (split_str CHR '':'' stored) \<noteq> 2 \<longrightarrow> \<not> verify_password p stored)"
proof (intro conjI impI)
  assume a: "CHR '':'' \<notin> set s \<and> hash_password p (Some s) token = Inr (h, s2)"
  then have h: "h = sha256_hexdigest (p @ s)" and enc: "\<not> has_surrogate (p @ s)"
    using hash_password_Inr by blast+
  have "split_str CHR '':'' (s @ '':'' @ h) = [s, h]"
    using a h by (simp add: split_str_append split_str_no_sep sha256_hexdigest_no_colon)
  then show "verify_password p (s @ '':'' @ h)"
    using h enc by (simp add: verify_password_def unpack2_two bind_e_def hash_password_returns)
next
  assume "length (split_str CHR '':'' stored) \<noteq> 2"
  then obtain e where "unpack2 (split_str CHR '':'' stored) = Inl e"
    using unpack2_other by blast
  then show "\<not> verify_password p stored"
    by (simp add: verify_password_def bind_e_def)
qed

text \<open>The theorem at the salt \<open>0a1b\<close> and at a stored string without a colon.\<close>

theorem verify_password_roundtrip_witness:
  "CHR '':'' \<notin> set ''0a1b''
   \<and> hash_password ''secret'' (Some ''0a1b'') [] = Inr (sha256_hexdigest ''secret0a1b'', ''0a1b'')
   \<and> verify_password ''secret'' (''0a1b'' @ '':'' @ sha256_hexdigest ''secret0a1b'')
   \<and> length (split_str CHR '':'' ''nocolon'') \<noteq> 2
   \<and> \<not> verify_password ''secret'' ''nocolon''"
proof -
  have h: "hash_password ''secret'' (Some ''0a1b'') []
             = Inr (sha256_hexdigest ''secret0a1b'', ''0a1b'')"
    using hash_password_returns [of "''secret''" "''0a1b''" "[]"] by simp
  from verify_password_roundtrip
         [of "''0a1b''" "''secret''" "[]" "sha256_hexdigest ''secret0a1b''" "''0a1b''" "''nocolon''"]
       h
  show ?thesis by simp
qed

text \<open>
  C8 as stated, for every salt, fails: with the salt \<open>a:b\<close> the stored string splits into
  three parts, the unpacking raises, and the password it was made from is refused.
\<close>

theorem verify_password_salt_with_colon_counterexample:
  "hash_password ''x'' (Some ''a:b'') [] = Inr (sha256_hexdigest ''xa:b'', ''a:b'')
   \<and> \<not> verify_password ''x'' (''a:b'' @ '':'' @ sha256_hexdigest ''xa:b'')"
proof -
  have h: "hash_password ''x'' (Some ''a:b'') [] = Inr (sha256_hexdigest ''xa:b'', ''a:b'')"
    using hash_password_returns [of "''x''" "''a:b''" "[]"] by simp
  have "split_str CHR '':'' (''a:b'' @ '':'' @ sha256_hexdigest ''xa:b'')
          = [''a'', ''b'', sha256_hexdigest ''xa:b'']"
    by (simp add: split_str_no_sep sha256_hexdigest_no_colon)
  then have "\<not> verify_password ''x'' (''a:b'' @ '':'' @ sha256_hexdigest ''xa:b'')"
    by (simp add: verify_password_def unpack2_def bind_e_def)
  with h show ?thesis by simp
qed

section \<open>The sample database\<close>

lemma len_str_samples:
  "len_str ''al'' = 2" "len_str ''alice'' = 5" "len_str ''abc'' = 3"
  "len_str ''secret1'' = 7" "len_str ''secret2'' = 7" "len_str surrogate_password = 7"
  by (simp_all add: len_str_def is_continuation_def surrogate_password_def)

lemma no_surrogate_samples:
  "\<not> has_surrogate ''alice''" "\<not> has_surrogate ''bob''"
  "\<not> has_surrogate (''secret1'' @ sample_token)" "\<not> has_surrogate (''secret2'' @ sample_token)"
  "\<not> has_surrogate (''wrong'' @ sample_token)" "\<not> has_surrogate sample_token"
  by (simp_all add: sample_token_def)

lemma surrogate_password_has_surrogate:
  "has_surrogate surrogate_password" "has_surrogate (surrogate_password @ salt)"
  "surrogate_password \<noteq> []"
  by (simp_all add: surrogate_password_def)

lemma fresh_db_eq:
  "fresh_db =
     \<lparr>users = Some \<lparr>rows = [], seq = 0\<rparr>, budget_plans = Some \<lparr>rows = [], seq = 0\<rparr>,
      expenses = Some \<lparr>rows = [], seq = 0\<rparr>, income = Some \<lparr>rows = [], seq = 0\<rparr>,
      user_preferences = Some \<lparr>rows = [], seq = 0\<rparr>,
      ai_predictions = Some \<lparr>rows = [], seq = 0\<rparr>, can_open = True\<rparr>"
  by (simp add: fresh_db_def)

text \<open>On a new file \<open>init_database\<close> returns and leaves the six tables, empty.\<close>

lemma init_database_empty: "init_database empty_database = Inr fresh_db"
  by (simp add: fresh_db_def init_database_def empty_database_def create_table_if_not_exists_def
        get_connection_def bind_e_def)

text \<open>
  The two digests below are the values that \<open>hashlib.sha256\<close> gives for the same
  bytes.
\<close>

lemma sha256_secret1:
  "sha256_hexdigest ''secret100112233445566778899aabbccddeeff''
     = ''433a6384062160686e91491c9a8e954ee628ff457ed6af8869f6fdeb95147857''"
  by code_simp


lemma alice_hash:
  "hash_password ''secret1'' None ''00112233445566778899aabbccddeeff''
     = Inr (''433a6384062160686e91491c9a8e954ee628ff457ed6af8869f6fdeb95147857'',
            ''00112233445566778899aabbccddeeff'')"
  using hash_password_token [OF no_surrogate_samples(3)]
  by (simp add: sample_token_def sha256_secret1)

lemma alice_db_eq:
  "alice_db =
     \<lparr>users = Some \<lparr>rows = [alice_row], seq = 1\<rparr>,
      budget_plans = Some \<lparr>rows = [], seq = 0\<rparr>,
      expenses = Some \<lparr>rows = [], seq = 0\<rparr>, income = Some \<lparr>rows = [], seq = 0\<rparr>,
      user_preferences = Some \<lparr>rows = [\<lparr>p_id = 1, p_user_id = 1, p_currency = ''USD'',
                                          p_language = ''en'', p_theme = ''light'',
                                          p_notifications = 1\<rparr>], seq = 1\<rparr>,
      ai_predictions = Some \<lparr>rows = [], seq = 0\<rparr>, can_open = True\<rparr>"
  by (simp add: alice_db_def register_user_def len_str_samples alice_hash fresh_db_eq
        get_connection_def sql_insert_user_def sql_insert_preferences_def bind_e_def
        encode_def bind_optional_def next_rowid_def alice_row_def sample_token_def)


text \<open>Alice logs in with her password.\<close>

lemma alice_login:
  "fst (login_user ''alice'' ''secret1'' ''2024-03-01 10:00:00'' alice_db)
     = Inr (PDict [(''success'', PBool True), (''message'', PStr ''Login successful!''),
                   (''user_id'', PInt 1), (''username'', PStr ''alice'')])"
  by (simp add: login_user_def bind_e_def get_connection_def sql_select_user_def
        sql_update_last_login_def alice_db_eq alice_row_def verify_password_def unpack2_def
        hash_password_def encode_def sha256_secret1)

text \<open>
  A login with a password that does not encode is refused like any wrong password: the
  \<open>except\<close> of \<open>verify_password\<close> catches the \<open>UnicodeEncodeError\<close>.
\<close>

lemma alice_login_surrogate_password:
  "login_user ''alice'' surrogate_password ''2024-03-01 10:00:00'' alice_db
     = (Inr (PDict [(''success'', PBool False),
                    (''message'', PStr ''Invalid username or password'')]), alice_db)"
  by (simp add: login_user_def bind_e_def get_connection_def sql_select_user_def
        alice_db_eq alice_row_def verify_password_def unpack2_def
        hash_password_def encode_def surrogate_password_def)

section \<open>Failed logins\<close>




section \<open>Registration validates before it writes\<close>



section \<open>Structured results\<close>

text \<open>
  \<open>restore_from_backup\<close> has its whole body in the \<open>try\<close> block: it answers with a dict
  on every input.
\<close>

lemma structured_restore:
  "structured_result (fst (restore_from_backup lib user_id backup_json now db))"
  by (auto simp: restore_from_backup_def structured_result_def bind_s_def
        split: prod.splits sum.splits)

text \<open>
  \<open>login_user\<close> answers with a dict once the connection is open, whatever the strings
  are; \<open>get_connection()\<close> stands before its \<open>try\<close>, and a failed connect is raised.
\<close>

lemma structured_login:
  "can_open db \<Longrightarrow> structured_result (fst (login_user username password now db))"
  by (auto simp: login_user_def get_connection_def structured_result_def bind_e_def
        split: prod.splits sum.splits option.splits)

lemma login_user_no_connection:
  "\<not> can_open db \<Longrightarrow>
     login_user username password now db
       = (Inl (OperationalError ''unable to open database file''), db)"
  by (simp add: login_user_def get_connection_def)

text \<open>
  \<open>register_user\<close> answers with a dict when the input is too short, and when the
  password with its salt encodes and the connection opens. Otherwise the statements
  before its \<open>try\<close> raise.
\<close>

lemma structured_register_short:
  "len_str username < 3 \<or> len_str password < 6 \<Longrightarrow>
     structured_result (fst (register_user username password email token now db))"
  by (auto simp: register_user_def structured_result_def)

lemma structured_register:
  "\<not> has_surrogate (password @ token) \<Longrightarrow> can_open db \<Longrightarrow>
     structured_result (fst (register_user username password email token now db))"
  by (simp add: register_user_def hash_password_token get_connection_def structured_result_def
        Let_def split: prod.splits sum.splits)

lemma register_user_unencodable_password:
  assumes "\<not> len_str username < 3" "\<not> len_str password < 6"
    and "has_surrogate (password @ token)"
  shows "\<exists>m. register_user username password email token now db
               = (Inl (UnicodeEncodeError m), db)"
proof -
  from assms have ne: "username \<noteq> []" "password \<noteq> []"
    by (auto simp: len_str_def)
  from hash_password_raises [where p = password and salt = None and token = token] assms(3)
  obtain m where "hash_password password None token = Inl (UnicodeEncodeError m)"
    by auto
  with assms ne show ?thesis
    by (simp add: register_user_def)
qed

lemma register_user_no_connection:
  assumes "\<not> len_str username < 3" "\<not> len_str password < 6"
    and "\<not> has_surrogate (password @ token)" "\<not> can_open db"
  shows "register_user username password email token now db
           = (Inl (OperationalError ''unable to open database file''), db)"
proof -
  from assms have ne: "username \<noteq> []" "password \<noteq> []"
    by (auto simp: len_str_def)
  with assms show ?thesis
    by (simp add: register_user_def hash_password_token get_connection_def)
qed

text \<open>
  C4 fails on the code. The password \<open>secret\<close> followed by the lone surrogate
  \<open>U+D800\<close> is a string of 7 characters, so it passes the length check of
  \<open>register_user\<close>; \<open>hash_password\<close> then encodes it, before the \<open>try\<close> block is
  entered, and the \<open>UnicodeEncodeError\<close> leaves \<open>register_user\<close>: the caller gets no
  dict. The database is the one after start-up, where nothing else fails.
\<close>

theorem register_user_raises_on_unencodable_password:
  "len_str surrogate_password = 7
   \<and> register_user ''alice'' surrogate_password None sample_token ''2024-01-01 09:00:00'' fresh_db
       = (Inl (UnicodeEncodeError ([CHR 0x27] @ ''utf-8'' @ [CHR 0x27] @ '' codec can''
                                   @ [CHR 0x27] @ ''t encode character: surrogates not allowed'')),
          fresh_db)
   \<and> \<not> structured_result
         (fst (register_user ''alice'' surrogate_password None sample_token
                 ''2024-01-01 09:00:00'' fresh_db))"
proof -
  have r: "register_user ''alice'' surrogate_password None sample_token ''2024-01-01 09:00:00''
             fresh_db
       = (Inl (UnicodeEncodeError ([CHR 0x27] @ ''utf-8'' @ [CHR 0x27] @ '' codec can''
                                   @ [CHR 0x27] @ ''t encode character: surrogates not allowed'')),
          fresh_db)"
    by (simp add: register_user_def len_str_samples hash_password_def encode_def bind_e_def
          surrogate_password_has_surrogate)
  then show ?thesis
    by (simp add: len_str_samples structured_result_def)
qed

text \<open>
  The same password and a text that is not JSON, on the paths that answer with a dict:
  a registration on a database without tables, where the \<open>INSERT\<close> raises inside the
  \<open>try\<close>, a login, and a restore.
\<close>

lemma structured_samples:
  "register_user ''alice'' ''secret1'' None sample_token ''2024-01-01 09:00:00'' empty_database
     = (Inr (PDict [(''success'', PBool False),
                    (''message'', PStr ''Error creating account: no such table: users'')]),
        empty_database)"
  "login_user ''alice'' surrogate_password ''2024-01-01 09:00:00'' empty_database
     = (Inr (PDict [(''success'', PBool False),
                    (''message'', PStr ''Login error: no such table: users'')]), empty_database)"
  "restore_from_backup sample_lib 1 ''not json'' ''2024-01-01 09:00:00'' fresh_db
     = (Inr (PDict [(''success'', PBool False),
                    (''message'', PStr (''Error restoring backup: ''
                                        @ ''Expecting value: line 1 column 1 (char 0)''))]),
        fresh_db)"
proof -
  show "register_user ''alice'' ''secret1'' None sample_token ''2024-01-01 09:00:00''
          empty_database
     = (Inr (PDict [(''success'', PBool False),
                    (''message'', PStr ''Error creating account: no such table: users'')]),
        empty_database)"
    using hash_password_token [OF no_surrogate_samples(3)]
    by (simp add: register_user_def len_str_samples get_connection_def bind_e_def
          sql_insert_user_def empty_database_def)
  show "login_user ''alice'' surrogate_password ''2024-01-01 09:00:00'' empty_database
     = (Inr (PDict [(''success'', PBool False),
                    (''message'', PStr ''Login error: no such table: users'')]), empty_database)"
    by (simp add: login_user_def get_connection_def bind_e_def sql_select_user_def
          empty_database_def)
  show "restore_from_backup sample_lib 1 ''not json'' ''2024-01-01 09:00:00'' fresh_db
     = (Inr (PDict [(''success'', PBool False),
                    (''message'', PStr (''Error restoring backup: ''
                                        @ ''Expecting value: line 1 column 1 (char 0)''))]),
        fresh_db)"
    by (simp add: restore_from_backup_def bind_s_def sample_lib_def sample_backup_json_def)
qed

section \<open>The backup of a registered user\<close>

text \<open>
  With the tables in place, \<open>create_full_backup\<close> raises for a user with one row of
  preferences, the state every registration leaves, and returns for a user with none.
\<close>

lemma create_full_backup_one_preferences_row:
  assumes "can_open db"
    and "expenses db = Some te" "income db = Some ti" "budget_plans db = Some tb"
    and "user_preferences db = Some tp"
    and "filter (\<lambda>r. p_user_id r = user_id) (rows tp) = [r]"
  shows "create_full_backup user_id now db
           = Inl (TypeError ([CHR 0x27] @ ''NoneType'' @ [CHR 0x27] @ '' object is not iterable''))"
  using assms
  by (simp add: create_full_backup_def get_connection_def get_expenses_def get_income_def
        sql_select_budget_plans_def sql_select_preferences_def bind_e_def fetchone_def
        dict_row_def)

lemma create_full_backup_no_preferences_row:
  assumes "can_open db"
    and "expenses db = Some te" "income db = Some ti" "budget_plans db = Some tb"
    and "user_preferences db = Some tp"
    and "filter (\<lambda>r. p_user_id r = user_id) (rows tp) = []"
  shows "\<exists>d. create_full_backup user_id now db = Inr (PDict d)
             \<and> map_of d ''preferences'' = Some (PDict [])"
  using assms
  by (simp add: create_full_backup_def get_connection_def get_expenses_def get_income_def
        sql_select_budget_plans_def sql_select_preferences_def bind_e_def fetchone_def
        dict_row_def)

text \<open>
  C2 fails on the code. After \<open>register_user("alice", "secret1")\<close> the user 1 has a row
  in \<open>user_preferences\<close>, and \<open>create_full_backup(1)\<close> and \<open>export_backup_json(1)\<close> raise
  \<open>TypeError\<close>: the condition of the conditional expression has fetched the only row,
  and \<open>dict\<close> is applied to the \<open>None\<close> of the second \<open>fetchone\<close>.
\<close>

theorem create_full_backup_raises_for_registered_user:
  "create_full_backup 1 ''2024-03-01T10:00:00'' alice_db
     = Inl (TypeError ([CHR 0x27] @ ''NoneType'' @ [CHR 0x27] @ '' object is not iterable''))
   \<and> export_backup_json sample_lib 1 ''2024-03-01T10:00:00'' alice_db
     = Inl (TypeError ([CHR 0x27] @ ''NoneType'' @ [CHR 0x27] @ '' object is not iterable''))"
  by (simp add: export_backup_json_def create_full_backup_def alice_db_eq get_connection_def
        get_expenses_def get_income_def sql_select_budget_plans_def sql_select_preferences_def
        bind_e_def fetchone_def fetchall_def dict_row_def)

section \<open>Restoring keeps to the taxonomy\<close>

lemma only_taxonomy_refl: "only_taxonomy_rows_added db db"
  by (simp add: only_taxonomy_rows_added_def)

lemma only_taxonomy_trans:
  "only_taxonomy_rows_added db db1 \<Longrightarrow> only_taxonomy_rows_added db1 db2
     \<Longrightarrow> only_taxonomy_rows_added db db2"
  unfolding only_taxonomy_rows_added_def by blast

lemma add_expense_taxonomy:
  assumes "add_expense user_id c s amount d descr tags now db = (res, db1)"
  shows "only_taxonomy_rows_added db db1"
    and "getitem res ''success'' = Inr v \<Longrightarrow> truthy v \<Longrightarrow> in_taxonomy c s"
  using assms
  by (auto simp: add_expense_def only_taxonomy_rows_added_def expense_rows_def budget_rows_def
        success_result_def failure_result_def getitem_def truthy_def Let_def
        split: pyval.splits if_splits option.splits)

lemma set_budget_taxonomy:
  assumes "set_budget user_id c s amount m y now db = (res, db1)"
  shows "only_taxonomy_rows_added db db1"
    and "getitem res ''success'' = Inr v \<Longrightarrow> truthy v \<Longrightarrow> in_taxonomy c s"
  using assms
  by (auto simp: set_budget_def only_taxonomy_rows_added_def expense_rows_def budget_rows_def
        success_result_def failure_result_def getitem_def truthy_def Let_def same_plan_key_def plan_key_def
        split: pyval.splits if_splits option.splits)

lemma add_income_taxonomy:
  assumes "add_income user_id src amount d descr now db = (res, db1)"
  shows "only_taxonomy_rows_added db db1"
  using assms
  by (auto simp: add_income_def only_taxonomy_rows_added_def expense_rows_def budget_rows_def Let_def
        split: option.splits)


lemma counted_cases:
  "counted (res, db1) = (r, db2) \<Longrightarrow>
     db2 = db1 \<and> (r = Inr True \<longrightarrow> (\<exists>v. getitem res ''success'' = Inr v \<and> truthy v))"
  by (auto simp: counted_def split: sum.splits)

lemma restore_expense_taxonomy:
  assumes "restore_expense lib user_id now entry db = (r, db1)"
  shows "only_taxonomy_rows_added db db1 \<and> (r = Inr True \<longrightarrow> entry_in_taxonomy entry)"
proof (cases "getitem entry ''category''")
  case (Inl e)
  with assms show ?thesis
    by (auto simp: restore_expense_def bind_s_def bind_e_def only_taxonomy_refl)
next
  case c: (Inr c)
  show ?thesis
  proof (cases "getitem entry ''subcategory''")
    case (Inl e)
    with assms c show ?thesis
      by (auto simp: restore_expense_def bind_s_def bind_e_def only_taxonomy_refl)
  next
    case s: (Inr s)
    show ?thesis
    proof (cases "bind_e (bind_e (getitem entry ''amount'') (py_float lib)) (\<lambda>amount.
             bind_e (bind_e (getitem entry ''expense_date'') (py_fromisoformat lib)) (\<lambda>expense_date.
             bind_e (get_method entry ''description'' (PStr [])) (\<lambda>description.
             bind_e (get_method entry ''tags'' (PStr [])) (\<lambda>tags.
             Inr (amount, expense_date, description, tags)))))")
      case (Inl e)
      with assms c s show ?thesis
        by (auto simp: restore_expense_def bind_s_def bind_e_def only_taxonomy_refl split: sum.splits)
    next
      case (Inr args)
      obtain amount d descr tags where args: "args = (amount, d, descr, tags)"
        by (cases args) auto
      obtain res db2 where ae: "add_expense user_id c s amount d descr tags now db = (res, db2)"
        by (cases "add_expense user_id c s amount d descr tags now db") auto
      from assms c s Inr args ae have cr: "counted (res, db2) = (r, db1)"
        by (auto simp: restore_expense_def bind_s_def bind_e_def split: sum.splits)
      from counted_cases [OF cr] add_expense_taxonomy [OF ae] c s show ?thesis
        by (auto simp: entry_in_taxonomy_def)
    qed
  qed
qed


lemma restore_budget_taxonomy:
  assumes "restore_budget lib user_id now entry db = (r, db1)"
  shows "only_taxonomy_rows_added db db1 \<and> (r = Inr True \<longrightarrow> entry_in_taxonomy entry)"
proof (cases "getitem entry ''category''")
  case (Inl e)
  with assms show ?thesis
    by (auto simp: restore_budget_def bind_s_def bind_e_def only_taxonomy_refl)
next
  case c: (Inr c)
  show ?thesis
  proof (cases "getitem entry ''subcategory''")
    case (Inl e)
    with assms c show ?thesis
      by (auto simp: restore_budget_def bind_s_def bind_e_def only_taxonomy_refl)
  next
    case s: (Inr s)
    show ?thesis
    proof (cases "bind_e (bind_e (getitem entry ''planned_amount'') (py_float lib)) (\<lambda>planned_amount.
             bind_e (bind_e (getitem entry ''month'') (py_int lib)) (\<lambda>month.
             bind_e (bind_e (getitem entry ''year'') (py_int lib)) (\<lambda>year.
             Inr (planned_amount, month, year))))")
      case (Inl e)
      with assms c s show ?thesis
        by (auto simp: restore_budget_def bind_s_def bind_e_def only_taxonomy_refl split: sum.splits)
    next
      case (Inr args)
      obtain amount m y where args: "args = (amount, m, y)"
        by (cases args) auto
      obtain res db2 where sb: "set_budget user_id c s amount m y now db = (res, db2)"
        by (cases "set_budget user_id c s amount m y now db") auto
      from assms c s Inr args sb have cr: "counted (res, db2) = (r, db1)"
        by (auto simp: restore_budget_def bind_s_def bind_e_def split: sum.splits)
      from counted_cases [OF cr] set_budget_taxonomy [OF sb] c s show ?thesis
        by (auto simp: entry_in_taxonomy_def)
    qed
  qed
qed

lemma restore_income_taxonomy:
  assumes "restore_income lib user_id now entry db = (r, db1)"
  shows "only_taxonomy_rows_added db db1"
proof (cases "bind_e (getitem entry ''source'') (\<lambda>source.
             bind_e (bind_e (getitem entry ''amount'') (py_float lib)) (\<lambda>amount.
             bind_e (bind_e (getitem entry ''income_date'') (py_fromisoformat lib)) (\<lambda>income_date.
             bind_e (get_method entry ''description'' (PStr [])) (\<lambda>description.
             Inr (source, amount, income_date, description)))))")
  case (Inl e)
  with assms show ?thesis
    by (auto simp: restore_income_def bind_s_def only_taxonomy_refl)
next
  case (Inr args)
  obtain src amount d descr where args: "args = (src, amount, d, descr)"
    by (cases args) auto
  obtain res db2 where ai: "add_income user_id src amount d descr now db = (res, db2)"
    by (cases "add_income user_id src amount d descr now db") auto
  from assms Inr args ai have cr: "counted (res, db2) = (r, db1)"
    by (auto simp: restore_income_def bind_s_def)
  from counted_cases [OF cr] add_income_taxonomy [OF ai] show ?thesis
    by auto
qed

lemma restore_loop_taxonomy:
  assumes body: "\<And>x db r db1. body x db = (r, db1) \<Longrightarrow>
                   only_taxonomy_rows_added db db1 \<and> (r = Inr True \<longrightarrow> valid x)"
  shows "restore_loop body xs n db = (r, db1) \<Longrightarrow>
           only_taxonomy_rows_added db db1
           \<and> (\<forall>m. r = Inr m \<longrightarrow> m \<le> n + length (filter valid xs))"
proof (induction xs arbitrary: n db)
  case Nil
  then show ?case by (auto simp: only_taxonomy_refl)
next
  case (Cons x xs)
  obtain c db2 where b: "body x db = (c, db2)" by (cases "body x db") auto
  note step = body [OF b]
  show ?case
  proof (cases c)
    case (Inl e)
    with Cons.prems b step show ?thesis by (auto simp: bind_s_def)
  next
    case (Inr counted)
    with Cons.prems b
    have rest: "restore_loop body xs (if counted then n + 1 else n) db2 = (r, db1)"
      by (simp add: bind_s_def)
    from Cons.IH [OF rest] step Inr show ?thesis
      by (auto intro: only_taxonomy_trans split: if_splits)
  qed
qed


lemma expenses_loop:
  "restore_loop (restore_expense lib user_id now) xs 0 db = (r, db1) \<Longrightarrow>
     only_taxonomy_rows_added db db1
     \<and> (\<forall>m. r = Inr m \<longrightarrow> m \<le> length (filter entry_in_taxonomy xs))"
  using restore_loop_taxonomy [of "restore_expense lib user_id now" entry_in_taxonomy xs 0 db r db1]
    restore_expense_taxonomy
  by simp

lemma budgets_loop:
  "restore_loop (restore_budget lib user_id now) xs 0 db = (r, db1) \<Longrightarrow>
     only_taxonomy_rows_added db db1
     \<and> (\<forall>m. r = Inr m \<longrightarrow> m \<le> length (filter entry_in_taxonomy xs))"
  using restore_loop_taxonomy [of "restore_budget lib user_id now" entry_in_taxonomy xs 0 db r db1]
    restore_budget_taxonomy
  by simp

lemma income_loop:
  "restore_loop (restore_income lib user_id now) xs 0 db = (r, db1) \<Longrightarrow>
     only_taxonomy_rows_added db db1"
  using restore_loop_taxonomy [of "restore_income lib user_id now" "\<lambda>x. True" xs 0 db r db1]
    restore_income_taxonomy
  by simp

text \<open>
  C3. The ledger validates against the taxonomy, and \<open>restore_from_backup\<close> keeps to
  its answer. After a restore, every row of the expense table and of the budget table is
  a row that was there before or carries a (category, subcategory) pair of
  \<open>BUDGET_CATEGORIES\<close>; and the numbers of expenses and of budgets reported as restored
  are at most the numbers of entries of the backup whose pair is in the taxonomy. An
  entry outside the taxonomy is neither stored nor counted.
\<close>

theorem restore_from_backup_only_taxonomy:
  assumes "restore_from_backup lib user_id backup_json now db = (res, db1)"
  shows "only_taxonomy_rows_added db db1
     \<and> (\<forall>n. restored_count res ''expenses'' = Some n \<longrightarrow>
            n \<le> int (length (filter entry_in_taxonomy (backup_entries lib backup_json ''expenses''))))
     \<and> (\<forall>n. restored_count res ''budgets'' = Some n \<longrightarrow>
            n \<le> int (length (filter entry_in_taxonomy (backup_entries lib backup_json ''budgets''))))"
proof (cases "json_loads lib backup_json")
  case (Inl e)
  with assms show ?thesis
    by (auto simp: restore_from_backup_def bind_s_def restored_count_def only_taxonomy_refl)
next
  case bd: (Inr backup_data)
  show ?thesis
  proof (cases "bind_e (get_method backup_data ''expenses'' (PList [])) py_iter")
    case (Inl e)
    with assms bd show ?thesis
      by (auto simp: restore_from_backup_def bind_s_def restored_count_def only_taxonomy_refl)
  next
    case exps: (Inr exps)
    obtain r1 dbA where l1: "restore_loop (restore_expense lib user_id now) exps 0 db = (r1, dbA)"
      by (cases "restore_loop (restore_expense lib user_id now) exps 0 db") auto
    note e1 = expenses_loop [OF l1]
    show ?thesis
    proof (cases r1)
      case (Inl e)
      with assms bd exps l1 e1 show ?thesis
        by (auto simp: restore_from_backup_def bind_s_def restored_count_def)
    next
      case n1: (Inr n_expenses)
      show ?thesis
      proof (cases "bind_e (get_method backup_data ''income'' (PList [])) py_iter")
        case (Inl e)
        with assms bd exps l1 e1 n1 show ?thesis
          by (auto simp: restore_from_backup_def bind_s_def restored_count_def)
      next
        case incs: (Inr incs)
        obtain r2 dbB where l2: "restore_loop (restore_income lib user_id now) incs 0 dbA = (r2, dbB)"
          by (cases "restore_loop (restore_income lib user_id now) incs 0 dbA") auto
        have e2: "only_taxonomy_rows_added db dbB"
          using e1 income_loop [OF l2] by (blast intro: only_taxonomy_trans)
        show ?thesis
        proof (cases r2)
          case (Inl e)
          with assms bd exps l1 n1 incs l2 e2 show ?thesis
            by (auto simp: restore_from_backup_def bind_s_def restored_count_def)
        next
          case n2: (Inr n_income)
          show ?thesis
          proof (cases "bind_e (get_method backup_data ''budgets'' (PList [])) py_iter")
            case (Inl e)
            with assms bd exps l1 n1 incs l2 e2 n2 show ?thesis
              by (auto simp: restore_from_backup_def bind_s_def restored_count_def)
          next
            case buds: (Inr buds)
            obtain r3 dbC where l3: "restore_loop (restore_budget lib user_id now) buds 0 dbB = (r3, dbC)"
              by (cases "restore_loop (restore_budget lib user_id now) buds 0 dbB") auto
            note b3 = budgets_loop [OF l3]
            have e3: "only_taxonomy_rows_added db dbC"
              using e2 b3 by (blast intro: only_taxonomy_trans)
            show ?thesis
            proof (cases r3)
              case (Inl e)
              with assms bd exps l1 n1 incs l2 n2 buds l3 e3 show ?thesis
                by (auto simp: restore_from_backup_def bind_s_def restored_count_def)
            next
              case n3: (Inr n_budgets)
              with assms bd exps l1 n1 incs l2 n2 buds l3 e3 e1 b3 show ?thesis
                by (auto simp: restore_from_backup_def bind_s_def restored_count_def backup_entries_def)
            qed
          qed
        qed
      qed
    qed
  qed
qed

lemma in_taxonomy_groceries: "in_taxonomy (PStr ''Food'') (PStr ''Groceries'')"
  by (simp add: in_taxonomy_def BUDGET_CATEGORIES_def)

lemma in_taxonomy_rockets: "\<not> in_taxonomy (PStr ''Food'') (PStr ''Rockets'')"
  by (simp add: in_taxonomy_def BUDGET_CATEGORIES_def)

lemma in_taxonomy_electricity: "in_taxonomy (PStr ''Housing'') (PStr ''Electricity'')"
  by (simp add: in_taxonomy_def BUDGET_CATEGORIES_def)

text \<open>
  The sample backup holds an expense under Food/Groceries, one under Food/Rockets, which
  is no subcategory, and a budget for Housing/Electricity.
\<close>

lemma sample_restore:
  "restore_from_backup sample_lib 1 sample_backup_json ''2024-03-01 10:00:00'' fresh_db =
     (Inr (PDict [(''success'', PBool True),
                  (''message'', PStr ''Restored 1 expenses, 0 income entries, 1 budgets''),
                  (''details'', PDict [(''expenses'', PInt 1), (''income'', PInt 0),
                                       (''budgets'', PInt 1)])]),
      fresh_db\<lparr>expenses :=
                  Some \<lparr>rows = [\<lparr>e_id = 1, e_user_id = 1, e_category = ''Food'',
                                 e_subcategory = ''Groceries'', e_amount = 100,
                                 e_description = PStr [], e_expense_date = ''2024-01-15'',
                                 e_tags = PStr [], e_created_at = ''2024-03-01 10:00:00'',
                                 e_updated_at = ''2024-03-01 10:00:00''\<rparr>], seq = 1\<rparr>,
               budget_plans :=
                  Some \<lparr>rows = [\<lparr>b_id = 1, b_user_id = 1, b_category = ''Housing'',
                                 b_subcategory = ''Electricity'', b_planned_amount = 300,
                                 b_month = 2, b_year = 2024,
                                 b_created_at = ''2024-03-01 10:00:00''\<rparr>], seq = 1\<rparr>\<rparr>)"
  by (simp add: restore_from_backup_def sample_lib_def sample_backup_def bind_s_def bind_e_def
        get_method_def py_iter_def restore_expense_def restore_income_def restore_budget_def
        getitem_def py_float_def py_int_def py_fromisoformat_def counted_def truthy_def
        add_expense_def set_budget_def in_taxonomy_groceries in_taxonomy_rockets
        in_taxonomy_electricity fresh_db_eq next_rowid_def success_result_def failure_result_def
        Let_def)

lemma sample_entries:
  "filter entry_in_taxonomy (backup_entries sample_lib sample_backup_json ''expenses'')
     = [PDict [(''category'', PStr ''Food''), (''subcategory'', PStr ''Groceries''),
               (''amount'', PInt 100), (''expense_date'', PStr ''2024-01-15'')]]"
  by (simp add: backup_entries_def sample_lib_def sample_backup_def bind_e_def get_method_def
        py_iter_def entry_in_taxonomy_def getitem_def in_taxonomy_groceries in_taxonomy_rockets)

text \<open>
  The theorem on the sample backup: of the two expenses one is stored and counted, the
  one under Food/Rockets is not.
\<close>

theorem restore_from_backup_only_taxonomy_witness:
  "restored_count
      (fst (restore_from_backup sample_lib 1 sample_backup_json ''2024-03-01 10:00:00'' fresh_db))
      ''expenses'' = Some 1
   \<and> length (backup_entries sample_lib sample_backup_json ''expenses'') = 2
   \<and> length (filter entry_in_taxonomy (backup_entries sample_lib sample_backup_json ''expenses'')) = 1
   \<and> map e_subcategory
        (expense_rows
          (snd (restore_from_backup sample_lib 1 sample_backup_json ''2024-03-01 10:00:00'' fresh_db)))
        = [''Groceries'']
   \<and> only_taxonomy_rows_added fresh_db
        (snd (restore_from_backup sample_lib 1 sample_backup_json ''2024-03-01 10:00:00'' fresh_db))"
proof -
  have n: "length (backup_entries sample_lib sample_backup_json ''expenses'') = 2"
    by (simp add: backup_entries_def sample_lib_def sample_backup_def bind_e_def get_method_def
          py_iter_def)
  from restore_from_backup_only_taxonomy [OF sample_restore] sample_restore sample_entries n
  show ?thesis
    by (simp add: restored_count_def expense_rows_def)
qed

section \<open>Budget plans are unique\<close>

lemma list_ex_same_plan_key:
  "list_ex (same_plan_key u c s m y) rs \<longleftrightarrow> (u, c, s, m, y) \<in> set (map plan_key rs)"
  by (induction rs) (auto simp: same_plan_key_def)

lemma create_table_keeps: "t \<noteq> None \<Longrightarrow> create_table_if_not_exists t = t"
  by (auto simp: create_table_if_not_exists_def)

lemma execute_unique_plans:
  assumes "unique_plans db" and "execute st db = Inr db1"
  shows "unique_plans db1"
proof (cases st)
  case CreateTables
  with assms show ?thesis
    by (auto simp: unique_plans_def init_database_def get_connection_def bind_e_def
          create_table_if_not_exists_def split: option.splits if_splits)
next
  case (InsertUser username stored_hash email now)
  with assms show ?thesis
    by (auto simp: unique_plans_def sql_insert_user_def get_connection_def bind_e_def encode_def
          bind_optional_def Let_def split: option.splits if_splits sum.splits)
next
  case (InsertPreferences user_id)
  with assms show ?thesis
    by (auto simp: unique_plans_def sql_insert_preferences_def get_connection_def bind_e_def
          Let_def split: option.splits if_splits)
next
  case (UpdateLastLogin now uid)
  with assms show ?thesis
    by (auto simp: unique_plans_def sql_update_last_login_def get_connection_def bind_e_def
          split: option.splits if_splits)
next
  case (InsertBudgetPlan u c s a m y now)
  with assms show ?thesis
    by (auto simp: unique_plans_def sql_insert_budget_plan_def get_connection_def bind_e_def
          encode_def list_ex_same_plan_key Let_def plan_key_def split: option.splits if_splits)
qed

lemma execute_all_unique_plans:
  "unique_plans db \<Longrightarrow> unique_plans (execute_all stmts db)"
proof (induction stmts arbitrary: db)
  case Nil
  then show ?case by simp
next
  case (Cons st stmts)
  show ?case
  proof (cases "execute st db")
    case (Inl e)
    with Cons show ?thesis by simp
  next
    case (Inr db1)
    with Cons execute_unique_plans [of db st db1] show ?thesis by simp
  qed
qed

text \<open>
  C5. Start from a new database file, create the tables with \<open>init_database\<close>, and run
  any statements: the table \<open>budget_plans\<close> exists and no two of its rows agree on
  \<open>user_id\<close>, \<open>category\<close>, \<open>subcategory\<close>, \<open>month\<close> and \<open>year\<close>. The \<open>UNIQUE\<close>
  constraint refuses the insert that would break this.
\<close>

theorem budget_plans_unique:
  "init_database empty_database = Inr fresh_db
   \<and> (\<exists>t. budget_plans (execute_all stmts fresh_db) = Some t
       \<and> distinct (map plan_key (rows t))
       \<and> (\<forall>i < length (rows t). \<forall>j < length (rows t).
            i \<noteq> j \<longrightarrow> plan_key (rows t ! i) \<noteq> plan_key (rows t ! j)))"
proof -
  have "unique_plans fresh_db"
    by (simp add: unique_plans_def fresh_db_def)
  then have "unique_plans (execute_all stmts fresh_db)"
    by (rule execute_all_unique_plans)
  then obtain t where t: "budget_plans (execute_all stmts fresh_db) = Some t"
    and d: "distinct (map plan_key (rows t))"
    by (auto simp: unique_plans_def split: option.splits)
  from d have "\<forall>i < length (rows t). \<forall>j < length (rows t).
            i \<noteq> j \<longrightarrow> plan_key (rows t ! i) \<noteq> plan_key (rows t ! j)"
    by (simp add: distinct_conv_nth)
  with t d init_database_empty show ?thesis by blast
qed

lemma sample_statements_run:
  "map plan_key (budget_rows (execute_all sample_statements fresh_db))
     = [(1, ''Food'', ''Groceries'', 1, 2024), (1, ''Food'', ''Groceries'', 2, 2024)]"
  by (simp add: sample_statements_def fresh_db_def get_connection_def bind_e_def encode_def
        sql_insert_budget_plan_def same_plan_key_def plan_key_def
        next_rowid_def budget_rows_def Let_def)

text \<open>The theorem on three inserts, the second of which repeats the key of the first.\<close>

theorem budget_plans_unique_witness:
  "map plan_key (budget_rows (execute_all sample_statements fresh_db))
     = [(1, ''Food'', ''Groceries'', 1, 2024), (1, ''Food'', ''Groceries'', 2, 2024)]
   \<and> distinct (map plan_key (budget_rows (execute_all sample_statements fresh_db)))"
proof -
  from budget_plans_unique [of sample_statements] obtain t
    where "budget_plans (execute_all sample_statements fresh_db) = Some t"
      and "distinct (map plan_key (rows t))"
    by blast
  then have "distinct (map plan_key (budget_rows (execute_all sample_statements fresh_db)))"
    by (simp add: budget_rows_def)
  with sample_statements_run show ?thesis by simp
qed

lemma plan_key_update_amount:
  "plan_key \<circ> (\<lambda>r. if P r then r\<lparr>b_planned_amount := a\<rparr> else r) = plan_key"
  by (auto simp: plan_key_def fun_eq_iff)

text \<open>The upsert of the ledger keeps the keys apart as well.\<close>

lemma set_budget_unique_plans:
  assumes "unique_plans db" and "set_budget user_id c s a m y now db = (res, db1)"
  shows "unique_plans db1"
  using assms
  by (auto simp: set_budget_def unique_plans_def list_ex_same_plan_key plan_key_update_amount
        Let_def plan_key_def split: pyval.splits if_splits option.splits)

section \<open>Percentage and status of a reconciliation row\<close>

lemma comparison_row_of_plan:
  "comparison_row_of c s planned actual = Some r \<Longrightarrow> 0 < c_planned_amount r \<Longrightarrow>
     c_percentage r = Some (round1 (c_actual_amount r / c_planned_amount r * 100))
     \<and> c_status r = status_of (round1 (c_actual_amount r / c_planned_amount r * 100))"
  by (auto simp: comparison_row_of_def Let_def split: if_splits)

lemma reconcile_row:
  "r \<in> set (reconcile plans actuals month year) \<Longrightarrow>
     \<exists>c s planned actual. comparison_row_of c s planned actual = Some r"
  by (auto simp: reconcile_def Let_def List.map_filter_def; blast)

text \<open>
  C1. In every row of the reconciliation whose planned amount is positive, the percentage
  is \<open>round(actual/planned*100, 1)\<close> and the status follows the bands: Under Budget
  below 90, On Track from 90 to 110, Over Budget above 110. At the boundaries, 89.9 is
  Under Budget, 90.0 and 110.0 are On Track, 110.1 is Over Budget.
\<close>

theorem reconcile_percentage_status:
  "(\<forall>r \<in> set (reconcile plans actuals month year). 0 < c_planned_amount r \<longrightarrow>
      (\<exists>p. c_percentage r = Some p
           \<and> p = round1 (c_actual_amount r / c_planned_amount r * 100)
           \<and> (p < 90 \<longrightarrow> c_status r = ''Under Budget'')
           \<and> (90 \<le> p \<and> p \<le> 110 \<longrightarrow> c_status r = ''On Track'')
           \<and> (110 < p \<longrightarrow> c_status r = ''Over Budget'')))
   \<and> status_of (899 / 10) = ''Under Budget''
   \<and> status_of 90 = ''On Track''
   \<and> status_of 110 = ''On Track''
   \<and> status_of (1101 / 10) = ''Over Budget''"
proof (intro conjI ballI impI)
  fix r
  assume r: "r \<in> set (reconcile plans actuals month year)" and pos: "0 < c_planned_amount r"
  from reconcile_row [OF r] obtain c s planned actual
    where "comparison_row_of c s planned actual = Some r" by blast
  from comparison_row_of_plan [OF this pos]
  show "\<exists>p. c_percentage r = Some p
           \<and> p = round1 (c_actual_amount r / c_planned_amount r * 100)
           \<and> (p < 90 \<longrightarrow> c_status r = ''Under Budget'')
           \<and> (90 \<le> p \<and> p \<le> 110 \<longrightarrow> c_status r = ''On Track'')
           \<and> (110 < p \<longrightarrow> c_status r = ''Over Budget'')"
    by (simp add: status_of_def)
qed (simp_all add: status_of_def)

lemma sample_reconcile:
  "reconcile sample_plans sample_actuals 2 2024
   = [\<lparr>c_category = ''Housing'', c_subcategory = ''Electricity'', c_planned_amount = 300,
       c_actual_amount = 330, c_difference = 30, c_percentage = Some 110,
       c_status = ''On Track''\<rparr>,
      \<lparr>c_category = ''Food'', c_subcategory = ''Groceries'', c_planned_amount = 0,
       c_actual_amount = 600, c_difference = 600, c_percentage = None,
       c_status = ''No Budget Set''\<rparr>]"
  by (simp add: sample_plans_def sample_actuals_def reconcile_def Let_def List.map_filter_def
        comparison_row_of_def round1_def status_of_def)

text \<open>Rounding to one decimal moves a percentage across a threshold before the status is read.\<close>

lemma round1_examples:
  "round1 (8995 / 100) = 90" "round1 (8985 / 100) = 449 / 5" "round1 (11004 / 100) = 110"
  "round1 (11006 / 100) = 1101 / 10"
  by code_simp+

text \<open>
  The theorem on the scenario of the specification: 300 planned for Housing/Electricity
  and 330 spent give 110.0 and On Track.
\<close>

theorem reconcile_percentage_status_witness:
  "hd (reconcile sample_plans sample_actuals 2 2024) \<in> set (reconcile sample_plans sample_actuals 2 2024)
   \<and> 0 < c_planned_amount (hd (reconcile sample_plans sample_actuals 2 2024))
   \<and> c_percentage (hd (reconcile sample_plans sample_actuals 2 2024)) = Some 110
   \<and> c_percentage (hd (reconcile sample_plans sample_actuals 2 2024))
        = Some (round1 (330 / 300 * 100))
   \<and> c_status (hd (reconcile sample_plans sample_actuals 2 2024)) = ''On Track''"
proof -
  have m: "hd (reconcile sample_plans sample_actuals 2 2024)
             \<in> set (reconcile sample_plans sample_actuals 2 2024)"
    by (simp add: sample_reconcile)
  have p: "0 < c_planned_amount (hd (reconcile sample_plans sample_actuals 2 2024))"
    by (simp add: sample_reconcile)
  from reconcile_percentage_status [of sample_plans sample_actuals 2 2024] m p
  obtain q where "c_percentage (hd (reconcile sample_plans sample_actuals 2 2024)) = Some q"
    and "q = round1 (c_actual_amount (hd (reconcile sample_plans sample_actuals 2 2024))
                      / c_planned_amount (hd (reconcile sample_plans sample_actuals 2 2024)) * 100)"
    and "90 \<le> q \<and> q \<le> 110 \<longrightarrow> c_status (hd (reconcile sample_plans sample_actuals 2 2024)) = ''On Track''"
    by blast
  with m p show ?thesis
    by (simp add: sample_reconcile)
qed

section \<open>The savings rate\<close>

text \<open>
  C6. For a period whose income is positive, the savings rate of the monthly balance is
  \<open>(income - expenses) / income * 100\<close>, where income and expenses are the totals that
  the balance reports.
\<close>

theorem monthly_balance_savings_rate:
  "0 < sum_list income_amounts \<Longrightarrow>
     bal_savings_rate (get_monthly_balance income_amounts expense_amounts)
       = (sum_list income_amounts - sum_list expense_amounts) / sum_list income_amounts * 100
     \<and> bal_income (get_monthly_balance income_amounts expense_amounts) = sum_list income_amounts
     \<and> bal_expenses (get_monthly_balance income_amounts expense_amounts) = sum_list expense_amounts"
  by (simp add: get_monthly_balance_def Let_def)

text \<open>The theorem at an income of 3500 and expenses of 2100: the rate is 40.\<close>

theorem monthly_balance_savings_rate_witness:
  "(0::rat) < sum_list [3000, 500]
   \<and> bal_savings_rate (get_monthly_balance [3000, 500] [1200, 850, 50]) = 40"
  using monthly_balance_savings_rate [of "[3000, 500]" "[1200, 850, 50]"]
  by simp

end
